theory Spec2Isabelle
  imports Complex_Main
begin

section \<open>Dense matrices and boolean masks\<close>

text \<open>
  The update core of \<^verbatim>\<open>ies_enkf.cpp\<close> works on the dense matrix type of
  \<^verbatim>\<open>ert/res_util/matrix.hpp\<close> and on \<^verbatim>\<open>bool_vector_type\<close>. A matrix stores its row and
  column counts next to a grid of doubles. Doubles are read as real numbers throughout
  this development: rounding, infinities and NaN are outside the model.

  An entry is addressed by (row, column). The unchecked accessors of the C library are
  meaningful only inside the stored shape; the theorems below speak about entries inside
  the shape, and state the shapes they need as hypotheses.
\<close>

record matrix =
  rows :: nat
  columns :: nat
  data :: "nat \<Rightarrow> nat \<Rightarrow> real"

text \<open>
  Modelled from the spec: the matrix primitives of \<^verbatim>\<open>matrix.hpp\<close> and
  \<^verbatim>\<open>matrix_blas.hpp\<close> (section 4.A), whose implementation is not among the sources. A
  fresh matrix is zero-filled; \<^verbatim>\<open>matrix_iset_safe\<close> skips a write outside the shape
  (section 9).
\<close>

definition matrix_alloc :: "nat \<Rightarrow> nat \<Rightarrow> matrix" where
  "matrix_alloc r c = \<lparr>rows = r, columns = c, data = (\<lambda>i j. 0)\<rparr>"

definition matrix_alloc_copy :: "matrix \<Rightarrow> matrix" where
  "matrix_alloc_copy M = M"

definition matrix_iget :: "matrix \<Rightarrow> nat \<Rightarrow> nat \<Rightarrow> real" where
  "matrix_iget M i j = data M i j"

definition matrix_iset :: "matrix \<Rightarrow> nat \<Rightarrow> nat \<Rightarrow> real \<Rightarrow> matrix" where
  "matrix_iset M i j v = M\<lparr>data := (data M)(i := (data M i)(j := v))\<rparr>"

definition matrix_iset_safe :: "matrix \<Rightarrow> nat \<Rightarrow> nat \<Rightarrow> real \<Rightarrow> matrix" where
  "matrix_iset_safe M i j v =
     (if i < rows M \<and> j < columns M then matrix_iset M i j v else M)"

definition matrix_iadd :: "matrix \<Rightarrow> nat \<Rightarrow> nat \<Rightarrow> real \<Rightarrow> matrix" where
  "matrix_iadd M i j v = matrix_iset M i j (matrix_iget M i j + v)"

definition matrix_set :: "matrix \<Rightarrow> real \<Rightarrow> matrix" where
  "matrix_set M v = M\<lparr>data := (\<lambda>i j. v)\<rparr>"

definition matrix_assign :: "matrix \<Rightarrow> matrix \<Rightarrow> matrix" where
  "matrix_assign A B = A\<lparr>data := data B\<rparr>"

definition matrix_scale :: "matrix \<Rightarrow> real \<Rightarrow> matrix" where
  "matrix_scale M s = M\<lparr>data := (\<lambda>i j. data M i j * s)\<rparr>"

definition matrix_scale_row :: "matrix \<Rightarrow> nat \<Rightarrow> real \<Rightarrow> matrix" where
  "matrix_scale_row M r s =
     M\<lparr>data := (\<lambda>i j. if i = r then data M i j * s else data M i j)\<rparr>"

definition matrix_subtract_row_mean :: "matrix \<Rightarrow> matrix" where
  "matrix_subtract_row_mean M =
     M\<lparr>data := (\<lambda>i j. data M i j - (\<Sum>k<columns M. data M i k) / real (columns M))\<rparr>"

definition matrix_inplace_transpose :: "matrix \<Rightarrow> matrix" where
  "matrix_inplace_transpose M =
     \<lparr>rows = columns M, columns = rows M, data = (\<lambda>i j. data M j i)\<rparr>"

definition matrix_alloc_transpose :: "matrix \<Rightarrow> matrix" where
  "matrix_alloc_transpose M =
     \<lparr>rows = columns M, columns = rows M, data = (\<lambda>i j. data M j i)\<rparr>"

definition matrix_transpose :: "matrix \<Rightarrow> matrix \<Rightarrow> matrix" where
  "matrix_transpose A T = T\<lparr>data := (\<lambda>i j. data A j i)\<rparr>"

definition matrix_dgemm ::
  "matrix \<Rightarrow> matrix \<Rightarrow> matrix \<Rightarrow> bool \<Rightarrow> bool \<Rightarrow> real \<Rightarrow> real \<Rightarrow> matrix" where
  "matrix_dgemm C A B transA transB alpha beta =
     C\<lparr>data := (\<lambda>i j.
        alpha * (\<Sum>k<(if transA then rows A else columns A).
                   (if transA then data A k i else data A i k) *
                   (if transB then data B j k else data B k j))
        + beta * data C i j)\<rparr>"

definition matrix_matmul :: "matrix \<Rightarrow> matrix \<Rightarrow> matrix \<Rightarrow> matrix" where
  "matrix_matmul C A B = matrix_dgemm C A B False False 1 0"

definition matrix_alloc_matmul :: "matrix \<Rightarrow> matrix \<Rightarrow> matrix" where
  "matrix_alloc_matmul A B = matrix_matmul (matrix_alloc (rows A) (columns B)) A B"

definition matrix_inplace_matmul :: "matrix \<Rightarrow> matrix \<Rightarrow> matrix" where
  "matrix_inplace_matmul A B = matrix_matmul (matrix_alloc (rows A) (columns B)) A B"

definition matrix_sub :: "matrix \<Rightarrow> matrix \<Rightarrow> matrix \<Rightarrow> matrix" where
  "matrix_sub C A B = C\<lparr>data := (\<lambda>i j. data A i j - data B i j)\<rparr>"

definition matrix_inplace_sub :: "matrix \<Rightarrow> matrix \<Rightarrow> matrix" where
  "matrix_inplace_sub A B = A\<lparr>data := (\<lambda>i j. data A i j - data B i j)\<rparr>"

definition matrix_inplace_add :: "matrix \<Rightarrow> matrix \<Rightarrow> matrix" where
  "matrix_inplace_add A B = A\<lparr>data := (\<lambda>i j. data A i j + data B i j)\<rparr>"

definition matrix_diag_set_scalar :: "matrix \<Rightarrow> real \<Rightarrow> matrix" where
  "matrix_diag_set_scalar M v = M\<lparr>data := (\<lambda>i j. if i = j then v else 0)\<rparr>"

definition matrix_column_column_dot_product ::
  "matrix \<Rightarrow> nat \<Rightarrow> matrix \<Rightarrow> nat \<Rightarrow> real" where
  "matrix_column_column_dot_product A i B j = (\<Sum>k<rows A. data A k i * data B k j)"

text \<open>
  Modelled from the spec: \<^verbatim>\<open>bool_vector_type\<close> (section 3, "Mask: ordered sequence of
  booleans"), whose implementation is not among the sources.
\<close>

type_synonym bool_vector = "bool list"

definition bool_vector_size :: "bool_vector \<Rightarrow> nat" where
  "bool_vector_size msk = length msk"

definition bool_vector_iget :: "bool_vector \<Rightarrow> nat \<Rightarrow> bool" where
  "bool_vector_iget msk i = msk ! i"

definition bool_vector_count_equal :: "bool_vector \<Rightarrow> bool \<Rightarrow> nat" where
  "bool_vector_count_equal msk v = length (filter (\<lambda>b. b = v) msk)"

definition bool_vector_alloc :: "nat \<Rightarrow> bool \<Rightarrow> bool_vector" where
  "bool_vector_alloc n v = replicate n v"

section \<open>Active sub-matrices\<close>

text \<open>
  \<^verbatim>\<open>alloc_active\<close>: two nested index loops; \<^verbatim>\<open>row\<close> and \<^verbatim>\<open>column\<close> count the active
  rows and columns met so far and address the dense result.
\<close>

definition alloc_active_row ::
  "matrix \<Rightarrow> bool_vector \<Rightarrow> nat \<Rightarrow> nat \<Rightarrow> matrix \<Rightarrow> nat \<times> matrix" where
  "alloc_active_row full_matrix column_mask iobs row active =
     fold (\<lambda>iens (column, active).
             if bool_vector_iget column_mask iens
             then (column + 1,
                   matrix_iset active row column (matrix_iget full_matrix iobs iens))
             else (column, active))
          [0..<bool_vector_size column_mask] (0, active)"

definition alloc_active :: "matrix \<Rightarrow> bool_vector \<Rightarrow> bool_vector \<Rightarrow> matrix" where
  "alloc_active full_matrix row_mask column_mask =
     (let active = matrix_alloc (bool_vector_count_equal row_mask True)
                                (bool_vector_count_equal column_mask True)
      in snd (fold (\<lambda>iobs (row, active).
                      if bool_vector_iget row_mask iobs
                      then (row + 1,
                            snd (alloc_active_row full_matrix column_mask iobs row active))
                      else (row, active))
                   [0..<bool_vector_size row_mask] (0, active)))"

text \<open>
  \<^verbatim>\<open>active_rank msk i\<close> is the number of active positions before \<^verbatim>\<open>i\<close>: the value the
  counters \<^verbatim>\<open>row\<close>, \<^verbatim>\<open>column\<close>, \<^verbatim>\<open>i\<close> and \<^verbatim>\<open>j\<close> of the slicing loops hold when the
  loop index is \<^verbatim>\<open>i\<close>, and so the dense index of an active position.
\<close>

definition active_rank :: "bool_vector \<Rightarrow> nat \<Rightarrow> nat" where
  "active_rank msk i = bool_vector_count_equal (take i msk) True"

section \<open>Configuration and iteration state\<close>

text \<open>
  The integers of the module are C \<^verbatim>\<open>int\<close>s of 32 bits. Where the source does arithmetic
  on them, the result is wrapped into their range, as the two's complement targets of
  the code do.
\<close>

definition c_int_wrap :: "int \<Rightarrow> int" where
  "c_int_wrap x = (x + 2147483648) mod 4294967296 - 2147483648"

text \<open>
  Modelled from the spec: the error kinds of section 7. The sources under study raise
  none of them themselves; they arise in the configuration and state modules.
\<close>

datatype error = ShapeError | MaskError | ConfigError | NumericalError | StateError

text \<open>
  The inversion mode is an integer discriminator (\<^verbatim>\<open>set_int\<close> casts the integer it is given
  to the enum, and \<^verbatim>\<open>linalg_subspace_inversion\<close> receives it as \<^verbatim>\<open>const int\<close>). The values
  are those listed in the comment of \<^verbatim>\<open>ies_initX__\<close>.
\<close>

definition IES_INVERSION_EXACT :: int where
  "IES_INVERSION_EXACT = 0"

definition IES_INVERSION_SUBSPACE_EXACT_R :: int where
  "IES_INVERSION_SUBSPACE_EXACT_R = 1"

definition IES_INVERSION_SUBSPACE_EE_R :: int where
  "IES_INVERSION_SUBSPACE_EE_R = 2"

definition IES_INVERSION_SUBSPACE_RE :: int where
  "IES_INVERSION_SUBSPACE_RE = 3"

text \<open>The truncation is a \<^verbatim>\<open>std::variant<double, int>\<close>.\<close>

datatype truncation_variant = Truncation_double real | Truncation_int int

text \<open>
  Modelled from the spec: the configuration object of \<^verbatim>\<open>ies_config.hpp\<close> (sections 3
  and 4.B), which is not among the sources. A setter replaces the stored value; a value
  outside the range section 4.B lists is refused with \<^verbatim>\<open>ConfigError\<close>.
\<close>

record config_type =
  cfg_truncation :: truncation_variant
  cfg_inversion :: int
  cfg_aaprojection :: bool
  cfg_max_steplength :: real
  cfg_min_steplength :: real
  cfg_dec_steplength :: real
  cfg_logfile :: "string option"

definition get_truncation :: "config_type \<Rightarrow> truncation_variant" where
  "get_truncation ies_config = cfg_truncation ies_config"

definition get_inversion :: "config_type \<Rightarrow> int" where
  "get_inversion ies_config = cfg_inversion ies_config"

definition get_aaprojection :: "config_type \<Rightarrow> bool" where
  "get_aaprojection ies_config = cfg_aaprojection ies_config"

definition get_max_steplength :: "config_type \<Rightarrow> real" where
  "get_max_steplength ies_config = cfg_max_steplength ies_config"

definition get_min_steplength :: "config_type \<Rightarrow> real" where
  "get_min_steplength ies_config = cfg_min_steplength ies_config"

definition get_dec_steplength :: "config_type \<Rightarrow> real" where
  "get_dec_steplength ies_config = cfg_dec_steplength ies_config"

definition get_logfile :: "config_type \<Rightarrow> string option" where
  "get_logfile ies_config = cfg_logfile ies_config"

definition set_truncation :: "config_type \<Rightarrow> real \<Rightarrow> error + config_type" where
  "set_truncation ies_config v =
     (if 0 < v \<and> v \<le> 1
      then Inr (ies_config\<lparr>cfg_truncation := Truncation_double v\<rparr>)
      else Inl ConfigError)"

definition set_subspace_dimension :: "config_type \<Rightarrow> int \<Rightarrow> error + config_type" where
  "set_subspace_dimension ies_config v =
     (if v < 1 then Inl ConfigError
      else Inr (ies_config\<lparr>cfg_truncation := Truncation_int v\<rparr>))"

definition set_inversion :: "config_type \<Rightarrow> int \<Rightarrow> error + config_type" where
  "set_inversion ies_config v =
     (if v = IES_INVERSION_EXACT \<or> v = IES_INVERSION_SUBSPACE_EXACT_R \<or>
         v = IES_INVERSION_SUBSPACE_EE_R \<or> v = IES_INVERSION_SUBSPACE_RE
      then Inr (ies_config\<lparr>cfg_inversion := v\<rparr>)
      else Inl ConfigError)"

definition set_aaprojection :: "config_type \<Rightarrow> bool \<Rightarrow> config_type" where
  "set_aaprojection ies_config v = ies_config\<lparr>cfg_aaprojection := v\<rparr>"

definition set_max_steplength :: "config_type \<Rightarrow> real \<Rightarrow> error + config_type" where
  "set_max_steplength ies_config v =
     (if v < cfg_min_steplength ies_config then Inl ConfigError
      else Inr (ies_config\<lparr>cfg_max_steplength := v\<rparr>))"

definition set_min_steplength :: "config_type \<Rightarrow> real \<Rightarrow> error + config_type" where
  "set_min_steplength ies_config v =
     (if cfg_max_steplength ies_config < v then Inl ConfigError
      else Inr (ies_config\<lparr>cfg_min_steplength := v\<rparr>))"

definition set_dec_steplength :: "config_type \<Rightarrow> real \<Rightarrow> error + config_type" where
  "set_dec_steplength ies_config v =
     (if v \<le> 1 then Inl ConfigError
      else Inr (ies_config\<lparr>cfg_dec_steplength := v\<rparr>))"

definition set_logfile :: "config_type \<Rightarrow> string \<Rightarrow> config_type" where
  "set_logfile ies_config v = ies_config\<lparr>cfg_logfile := Some v\<rparr>"

text \<open>
  Modelled from the spec: \<^verbatim>\<open>ies::config::calculate_steplength\<close> (section 4.B), which is
  not among the sources:
  \<^verbatim>\<open>gamma = gamma_min + (gamma_max - gamma_min) * pow(2, -(iter - 1) / (decay - 1))\<close>.
\<close>

definition calculate_steplength :: "config_type \<Rightarrow> int \<Rightarrow> real" where
  "calculate_steplength ies_config iteration_nr =
     cfg_min_steplength ies_config +
     (cfg_max_steplength ies_config - cfg_min_steplength ies_config) *
       2 powr (- (real_of_int iteration_nr - 1) / (cfg_dec_steplength ies_config - 1))"

text \<open>
  Modelled from the spec: the iteration state of \<^verbatim>\<open>ies_data.hpp\<close> (sections 3 and 4.C),
  which is not among the sources. A matrix or mask that has not been stored yet is
  absent (\<^verbatim>\<open>None\<close>). The configuration a fresh state starts with is a parameter of
  \<^verbatim>\<open>data_alloc\<close>. The stored \<^verbatim>\<open>E\<close> and \<^verbatim>\<open>A0\<close> have the full sizes of section 3
  (\<^verbatim>\<open>m0_total\<close> by \<^verbatim>\<open>N0\<close> and \<^verbatim>\<open>n\<close> by \<^verbatim>\<open>N0\<close>), addressed by the positions of the masks, as
  \<^verbatim>\<open>alloc_activeE\<close> and \<^verbatim>\<open>alloc_activeA\<close> read them; \<^verbatim>\<open>data_E_rows\<close> marks the rows of \<^verbatim>\<open>E\<close>
  that hold perturbations (the "rows currently held" of section 4.C). The iteration
  counter is a C \<^verbatim>\<open>int\<close>.
\<close>

record data_type =
  data_config :: config_type
  data_W :: "matrix option"
  data_E :: "matrix option"
  data_E_rows :: bool_vector
  data_A0 :: "matrix option"
  data_ens_mask :: "bool_vector option"
  data_obs_mask0 :: "bool_vector option"
  data_obs_mask :: "bool_vector option"
  data_iteration_nr :: int
  data_state_size :: int

definition data_alloc :: "config_type \<Rightarrow> data_type" where
  "data_alloc ies_config =
     \<lparr>data_config = ies_config, data_W = None, data_E = None, data_E_rows = [],
      data_A0 = None,
      data_ens_mask = None, data_obs_mask0 = None, data_obs_mask = None,
      data_iteration_nr = 0, data_state_size = 0\<rparr>"

definition data_get_config :: "data_type \<Rightarrow> config_type" where
  "data_get_config ies_data = data_config ies_data"

definition data_get_iteration_nr :: "data_type \<Rightarrow> int" where
  "data_get_iteration_nr ies_data = data_iteration_nr ies_data"

definition data_set_iteration_nr :: "data_type \<Rightarrow> int \<Rightarrow> data_type" where
  "data_set_iteration_nr ies_data v = ies_data\<lparr>data_iteration_nr := v\<rparr>"

definition data_inc_iteration_nr :: "data_type \<Rightarrow> int \<times> data_type" where
  "data_inc_iteration_nr ies_data =
     (c_int_wrap (data_iteration_nr ies_data + 1),
      ies_data\<lparr>data_iteration_nr := c_int_wrap (data_iteration_nr ies_data + 1)\<rparr>)"

definition data_update_state_size :: "data_type \<Rightarrow> int \<Rightarrow> data_type" where
  "data_update_state_size ies_data n = ies_data\<lparr>data_state_size := n\<rparr>"

definition data_update_ens_mask :: "data_type \<Rightarrow> bool_vector \<Rightarrow> error + data_type" where
  "data_update_ens_mask ies_data ens_mask =
     (case data_ens_mask ies_data of
        None \<Rightarrow>
          Inr (ies_data\<lparr>data_ens_mask := Some ens_mask,
                         data_W := Some (matrix_alloc (length ens_mask) (length ens_mask))\<rparr>)
      | Some old \<Rightarrow>
          if length ens_mask = length old \<and>
             (\<forall>i \<in> set [0..<length old]. ens_mask ! i \<longrightarrow> old ! i)
          then Inr (ies_data\<lparr>data_ens_mask := Some ens_mask\<rparr>)
          else Inl MaskError)"

definition data_allocateW :: "data_type \<Rightarrow> data_type" where
  "data_allocateW ies_data =
     (case (data_W ies_data, data_ens_mask ies_data) of
        (None, Some ens_mask) \<Rightarrow>
          ies_data\<lparr>data_W := Some (matrix_alloc (length ens_mask) (length ens_mask))\<rparr>
      | _ \<Rightarrow> ies_data)"

definition store_initial_obs_mask :: "data_type \<Rightarrow> bool_vector \<Rightarrow> data_type" where
  "store_initial_obs_mask ies_data obs_mask =
     (case data_obs_mask0 ies_data of
        None \<Rightarrow> ies_data\<lparr>data_obs_mask0 := Some obs_mask\<rparr>
      | Some _ \<Rightarrow> ies_data)"

definition update_obs_mask :: "data_type \<Rightarrow> bool_vector \<Rightarrow> data_type" where
  "update_obs_mask ies_data obs_mask = ies_data\<lparr>data_obs_mask := Some obs_mask\<rparr>"

text \<open>
  \<^verbatim>\<open>scatter_active\<close> writes a dense matrix of active rows and columns into a full-size
  matrix. The rows marked in \<^verbatim>\<open>select\<close> are written at the active columns; the entry at
  position \<^verbatim>\<open>(i, j)\<close> comes from the dense row \<^verbatim>\<open>active_rank row_mask i\<close> and the dense
  column \<^verbatim>\<open>active_rank column_mask j\<close>.
\<close>

definition scatter_active ::
  "matrix \<Rightarrow> matrix \<Rightarrow> bool_vector \<Rightarrow> bool_vector \<Rightarrow> bool_vector \<Rightarrow> matrix" where
  "scatter_active full active select row_mask column_mask =
     full\<lparr>data := (\<lambda>i j.
        if i < length select \<and> select ! i \<and> i < length row_mask \<and>
           j < length column_mask \<and> column_mask ! j
        then data active (active_rank row_mask i) (active_rank column_mask j)
        else data full i j)\<rparr>"

text \<open>
  Section 4.C, \<^verbatim>\<open>store_initial_E\<close>: on the first iteration \<^verbatim>\<open>E_in\<close>, which has a row per
  active observation and a column per active realisation, is copied into \<^verbatim>\<open>E\<close>; the rows
  of the active observations are then held.
\<close>

definition data_store_initialE :: "data_type \<Rightarrow> matrix \<Rightarrow> data_type" where
  "data_store_initialE ies_data E_in =
     (case data_E ies_data of
        Some _ \<Rightarrow> ies_data
      | None \<Rightarrow>
          (case (data_obs_mask ies_data, data_ens_mask ies_data) of
             (Some obs_mask, Some ens_mask) \<Rightarrow>
               ies_data\<lparr>data_E :=
                          Some (scatter_active
                                  (matrix_alloc (length obs_mask) (length ens_mask))
                                  E_in obs_mask obs_mask ens_mask),
                        data_E_rows := obs_mask\<rparr>
           | _ \<Rightarrow> ies_data))"

text \<open>
  Section 4.C, \<^verbatim>\<open>augment_initial_E\<close>: when more observations are active than \<^verbatim>\<open>E\<close> holds
  rows, the rows of \<^verbatim>\<open>E_in\<close> of the observations that are active now, were not in
  \<^verbatim>\<open>obs_mask0\<close> and are not held yet are added to \<^verbatim>\<open>E\<close>; the rows already held are not
  rewritten.
\<close>

definition newly_active_rows :: "bool_vector \<Rightarrow> bool_vector \<Rightarrow> bool_vector \<Rightarrow> bool_vector" where
  "newly_active_rows held obs_mask0 obs_mask =
     map (\<lambda>iobs. obs_mask ! iobs \<and> \<not> (iobs < length obs_mask0 \<and> obs_mask0 ! iobs)
                  \<and> \<not> (iobs < length held \<and> held ! iobs))
       [0..<length obs_mask]"

definition data_augment_initialE :: "data_type \<Rightarrow> matrix \<Rightarrow> data_type" where
  "data_augment_initialE ies_data E_in =
     (case (data_E ies_data, data_obs_mask0 ies_data, data_obs_mask ies_data,
            data_ens_mask ies_data) of
        (Some E0, Some obs_mask0, Some obs_mask, Some ens_mask) \<Rightarrow>
          (let held = data_E_rows ies_data;
               new_rows = newly_active_rows held obs_mask0 obs_mask
           in if bool_vector_count_equal held True < bool_vector_count_equal obs_mask True
              then ies_data\<lparr>data_E :=
                              Some (scatter_active E0 E_in new_rows obs_mask ens_mask),
                            data_E_rows :=
                              map (\<lambda>iobs. (iobs < length held \<and> held ! iobs) \<or> new_rows ! iobs)
                                [0..<length obs_mask]\<rparr>
              else ies_data)
      | _ \<Rightarrow> ies_data)"

text \<open>
  Section 4.C, \<^verbatim>\<open>store_initial_A\<close>: first call wins. \<^verbatim>\<open>A\<close> has a column per active
  realisation; \<^verbatim>\<open>A0\<close> has one per realisation of the mask.
\<close>

definition data_store_initialA :: "data_type \<Rightarrow> matrix \<Rightarrow> data_type" where
  "data_store_initialA ies_data A =
     (case data_A0 ies_data of
        Some _ \<Rightarrow> ies_data
      | None \<Rightarrow>
          (case data_ens_mask ies_data of
             Some ens_mask \<Rightarrow>
               (let state_mask = bool_vector_alloc (rows A) True
                in ies_data\<lparr>data_A0 :=
                     Some (scatter_active (matrix_alloc (rows A) (length ens_mask))
                             A state_mask state_mask ens_mask)\<rparr>)
           | None \<Rightarrow> ies_data))"

text \<open>
  \<^verbatim>\<open>alloc_activeE\<close>, \<^verbatim>\<open>alloc_activeW\<close> and \<^verbatim>\<open>alloc_activeA\<close> slice the stored matrices.
  Reading a matrix or mask that the state does not hold yet is the \<^verbatim>\<open>StateError\<close> of
  section 7.
\<close>

definition alloc_activeE :: "data_type \<Rightarrow> error + matrix" where
  "alloc_activeE ies_data =
     (case (data_E ies_data, data_obs_mask ies_data, data_ens_mask ies_data) of
        (Some E, Some obs_mask, Some ens_mask) \<Rightarrow> Inr (alloc_active E obs_mask ens_mask)
      | _ \<Rightarrow> Inl StateError)"

definition alloc_activeW :: "data_type \<Rightarrow> error + matrix" where
  "alloc_activeW ies_data =
     (case (data_W ies_data, data_ens_mask ies_data) of
        (Some W, Some ens_mask) \<Rightarrow> Inr (alloc_active W ens_mask ens_mask)
      | _ \<Rightarrow> Inl StateError)"

definition alloc_activeA :: "data_type \<Rightarrow> error + matrix" where
  "alloc_activeA ies_data =
     (case (data_A0 ies_data, data_ens_mask ies_data) of
        (Some A0, Some ens_mask) \<Rightarrow>
          (let state_mask = bool_vector_alloc (rows A0) True
           in Inr (alloc_active A0 state_mask ens_mask))
      | _ \<Rightarrow> Inl StateError)"

text \<open>
  \<^verbatim>\<open>linalg_store_active_W\<close>: the stored \<^verbatim>\<open>W\<close> is cleared, then the dense \<^verbatim>\<open>W0\<close> is
  written back to the active index pairs; \<^verbatim>\<open>i\<close> and \<^verbatim>\<open>j\<close> count the active rows and
  columns met so far.
\<close>

definition store_active_W_row ::
  "matrix \<Rightarrow> bool_vector \<Rightarrow> nat \<Rightarrow> nat \<Rightarrow> matrix \<Rightarrow> nat \<times> matrix" where
  "store_active_W_row W0 ens_mask iens i dataW =
     fold (\<lambda>jens (j, dataW).
             if bool_vector_iget ens_mask jens
             then (j + 1, matrix_iset_safe dataW iens jens (matrix_iget W0 i j))
             else (j, dataW))
          [0..<bool_vector_size ens_mask] (0, dataW)"

definition linalg_store_active_W :: "data_type \<Rightarrow> matrix \<Rightarrow> error + data_type" where
  "linalg_store_active_W ies_data W0 =
     (case (data_W ies_data, data_ens_mask ies_data) of
        (Some dataW, Some ens_mask) \<Rightarrow>
          (let ens_size_msk = bool_vector_size ens_mask;
               dataW = matrix_set dataW 0;
               dataW = snd (fold (\<lambda>iens (i, dataW).
                                    if bool_vector_iget ens_mask iens
                                    then (i + 1,
                                          snd (store_active_W_row W0 ens_mask iens i dataW))
                                    else (i, dataW))
                                 [0..<ens_size_msk] (0, dataW))
           in Inr (ies_data\<lparr>data_W := Some dataW\<rparr>))
      | _ \<Rightarrow> Inl StateError)"

section \<open>The linear-algebra kernel\<close>

text \<open>
  The LAPACK wrappers \<^verbatim>\<open>matrix_dgesvd\<close> and \<^verbatim>\<open>matrix_dgesvx\<close> and the routines
  \<^verbatim>\<open>enkf_linalg_lowrankE\<close> and \<^verbatim>\<open>enkf_linalg_lowrankCinv\<close> are not among the sources.
  They are parameters of the model: a kernel supplies, for the inputs of a call, the
  values the routine writes to its outputs. The outputs are allocated by the caller, so
  a call leaves their shape as it is.
\<close>

datatype dgesvd_vector = DGESVD_ALL | DGESVD_NONE | DGESVD_MIN_RETURN

record linalg_kernel =
  kernel_dgesvd ::
    "dgesvd_vector \<Rightarrow> dgesvd_vector \<Rightarrow> matrix \<Rightarrow>
       (nat \<Rightarrow> real) \<times> (nat \<Rightarrow> nat \<Rightarrow> real) \<times> (nat \<Rightarrow> nat \<Rightarrow> real)"
  kernel_dgesvx :: "matrix \<Rightarrow> matrix \<Rightarrow> (nat \<Rightarrow> nat \<Rightarrow> real)"
  kernel_lowrankE ::
    "matrix \<Rightarrow> matrix \<Rightarrow> matrix \<Rightarrow> (nat \<Rightarrow> real) \<Rightarrow> truncation_variant \<Rightarrow>
       (nat \<Rightarrow> nat \<Rightarrow> real) \<times> (nat \<Rightarrow> real)"
  kernel_lowrankCinv ::
    "matrix \<Rightarrow> matrix \<Rightarrow> matrix \<Rightarrow> (nat \<Rightarrow> real) \<Rightarrow> truncation_variant \<Rightarrow>
       (nat \<Rightarrow> nat \<Rightarrow> real) \<times> (nat \<Rightarrow> real)"

text \<open>
  \<^verbatim>\<open>matrix_dgesvd(DGESVD_ALL, DGESVD_NONE, A, s, U, NULL)\<close>: the singular values go to the
  first \<^verbatim>\<open>min(rows, columns)\<close> cells of the buffer \<^verbatim>\<open>s\<close>, the left singular vectors
  to \<^verbatim>\<open>U\<close>.
\<close>

definition matrix_dgesvd_U ::
  "linalg_kernel \<Rightarrow> matrix \<Rightarrow> (nat \<Rightarrow> real) \<Rightarrow> matrix \<Rightarrow> (nat \<Rightarrow> real) \<times> matrix" where
  "matrix_dgesvd_U K A s U =
     (case kernel_dgesvd K DGESVD_ALL DGESVD_NONE A of
        (sv, u, vt) \<Rightarrow>
          ((\<lambda>i. if i < min (rows A) (columns A) then sv i else s i), U\<lparr>data := u\<rparr>))"

text \<open>\<^verbatim>\<open>matrix_dgesvd(DGESVD_NONE, DGESVD_MIN_RETURN, A, s, NULL, VT)\<close>.\<close>

definition matrix_dgesvd_VT ::
  "linalg_kernel \<Rightarrow> matrix \<Rightarrow> (nat \<Rightarrow> real) \<Rightarrow> matrix \<Rightarrow> (nat \<Rightarrow> real) \<times> matrix" where
  "matrix_dgesvd_VT K A s VT =
     (case kernel_dgesvd K DGESVD_NONE DGESVD_MIN_RETURN A of
        (sv, u, vt) \<Rightarrow>
          ((\<lambda>i. if i < min (rows A) (columns A) then sv i else s i), VT\<lparr>data := vt\<rparr>))"

text \<open>\<^verbatim>\<open>matrix_dgesvx(A, B, NULL)\<close>: the solution of \<^verbatim>\<open>A X = B\<close> replaces \<^verbatim>\<open>B\<close>.\<close>

definition matrix_dgesvx :: "linalg_kernel \<Rightarrow> matrix \<Rightarrow> matrix \<Rightarrow> matrix" where
  "matrix_dgesvx K A B = B\<lparr>data := kernel_dgesvx K A B\<rparr>"

definition enkf_linalg_lowrankE ::
  "linalg_kernel \<Rightarrow> matrix \<Rightarrow> matrix \<Rightarrow> matrix \<Rightarrow> (nat \<Rightarrow> real) \<Rightarrow> truncation_variant \<Rightarrow>
     matrix \<times> (nat \<Rightarrow> real)" where
  "enkf_linalg_lowrankE K S E X1 eig truncation =
     (case kernel_lowrankE K S E X1 eig truncation of
        (x1, e) \<Rightarrow> (X1\<lparr>data := x1\<rparr>, e))"

definition enkf_linalg_lowrankCinv ::
  "linalg_kernel \<Rightarrow> matrix \<Rightarrow> matrix \<Rightarrow> matrix \<Rightarrow> (nat \<Rightarrow> real) \<Rightarrow> truncation_variant \<Rightarrow>
     matrix \<times> (nat \<Rightarrow> real)" where
  "enkf_linalg_lowrankCinv K S C X1 eig truncation =
     (case kernel_lowrankCinv K S C X1 eig truncation of
        (x1, e) \<Rightarrow> (X1\<lparr>data := x1\<rparr>, e))"

text \<open>
  Modelled from the spec: \<^verbatim>\<open>enkf_linalg_genX3\<close> (section 4.A), which is not among the
  sources: \<^verbatim>\<open>X3 <- X1 * diag(eig) * X1' * H\<close>.
\<close>

definition enkf_linalg_genX3 ::
  "matrix \<Rightarrow> matrix \<Rightarrow> matrix \<Rightarrow> (nat \<Rightarrow> real) \<Rightarrow> matrix" where
  "enkf_linalg_genX3 X3 X1 H eig =
     X3\<lparr>data := (\<lambda>i j. \<Sum>k<columns X1.
                     data X1 i k * eig k * (\<Sum>l<rows X1. data X1 l k * data H l j))\<rparr>"


section \<open>The routines of the update\<close>

text \<open>\<^verbatim>\<open>ies::linalg_compute_AA_projection\<close>.\<close>

definition linalg_compute_AA_projection :: "linalg_kernel \<Rightarrow> matrix \<Rightarrow> matrix \<Rightarrow> matrix" where
  "linalg_compute_AA_projection K A Y =
     (let ens_size = columns A;
          state_size = rows A;
          eig = (\<lambda>i. 0);
          Ai = matrix_alloc_copy A;
          AAi = matrix_alloc ens_size ens_size;
          Ai = matrix_subtract_row_mean Ai;
          VT = matrix_alloc state_size ens_size;
          (eig, VT) = matrix_dgesvd_VT K Ai eig VT;
          AAi = matrix_dgemm AAi VT VT True False 1 0;
          Y = matrix_inplace_matmul Y AAi
      in Y)"

text \<open>\<^verbatim>\<open>ies::linalg_solve_S\<close>: \<^verbatim>\<open>Omega^T S^T = Y^T\<close> is solved for \<^verbatim>\<open>S\<close>.\<close>

definition linalg_solve_S :: "linalg_kernel \<Rightarrow> matrix \<Rightarrow> matrix \<Rightarrow> matrix \<Rightarrow> matrix" where
  "linalg_solve_S K W0 Y S =
     (let ens_size = columns W0;
          nrobs = rows S;
          nsc = 1 / sqrt (real ens_size - 1);
          YT = matrix_alloc ens_size nrobs;
          ST = matrix_alloc ens_size nrobs;
          Omega = matrix_alloc ens_size ens_size;
          Omega = matrix_assign Omega W0;
          Omega = matrix_subtract_row_mean Omega;
          Omega = matrix_scale Omega nsc;
          Omega = matrix_inplace_transpose Omega;
          Omega = fold (\<lambda>i Omega. matrix_iadd Omega i i 1) [0..<ens_size] Omega;
          YT = matrix_transpose Y YT;
          YT = matrix_dgesvx K Omega YT;
          S = matrix_transpose YT S
      in S)"

text \<open>
  \<^verbatim>\<open>ies::linalg_subspace_inversion\<close>. Its first half chooses, by the inversion mode, the
  low-rank routine and the matrices handed to it: \<^verbatim>\<open>subspace_lowrank_call\<close> is that
  choice as a value, \<^verbatim>\<open>run_lowrank\<close> performs the call. A mode that matches none of the
  three branches calls nothing and leaves \<^verbatim>\<open>X1\<close> and \<^verbatim>\<open>eig\<close> as allocated. The divisor
  \<^verbatim>\<open>(ens_size - 1) * (ens_size - 1)\<close> of the \<^verbatim>\<open>EE_R\<close> branch is a product of two C \<^verbatim>\<open>int\<close>s
  and is wrapped into their range; \<^verbatim>\<open>nsc\<close> is computed in doubles.
\<close>

datatype lowrank_call =
  Call_lowrankE matrix matrix
  | Call_lowrankCinv matrix matrix
  | Call_none

definition subspace_lowrank_call :: "int \<Rightarrow> matrix \<Rightarrow> matrix \<Rightarrow> matrix \<Rightarrow> lowrank_call" where
  "subspace_lowrank_call ies_inversion E R S =
     (let ens_size = columns S;
          nsc = 1 / sqrt (real ens_size - 1)
      in if ies_inversion = IES_INVERSION_SUBSPACE_RE then
           (let scaledE = matrix_alloc_copy E;
                scaledE = matrix_scale scaledE nsc
            in Call_lowrankE S scaledE)
         else if ies_inversion = IES_INVERSION_SUBSPACE_EE_R then
           (let Et = matrix_alloc_transpose E;
                Cee = matrix_alloc_matmul E Et;
                Cee = matrix_scale Cee
                        (1 / real_of_int (c_int_wrap ((int ens_size - 1) * (int ens_size - 1))))
            in Call_lowrankCinv S Cee)
         else if ies_inversion = IES_INVERSION_SUBSPACE_EXACT_R then
           (let scaledR = matrix_alloc_copy R;
                scaledR = matrix_scale scaledR (nsc * nsc)
            in Call_lowrankCinv S scaledR)
         else Call_none)"

definition run_lowrank ::
  "linalg_kernel \<Rightarrow> lowrank_call \<Rightarrow> matrix \<Rightarrow> (nat \<Rightarrow> real) \<Rightarrow> truncation_variant \<Rightarrow>
     matrix \<times> (nat \<Rightarrow> real)" where
  "run_lowrank K call X1 eig truncation =
     (case call of
        Call_lowrankE S scaledE \<Rightarrow> enkf_linalg_lowrankE K S scaledE X1 eig truncation
      | Call_lowrankCinv S C \<Rightarrow> enkf_linalg_lowrankCinv K S C X1 eig truncation
      | Call_none \<Rightarrow> (X1, eig))"

definition linalg_subspace_inversion ::
  "linalg_kernel \<Rightarrow> matrix \<Rightarrow> int \<Rightarrow> matrix \<Rightarrow> matrix \<Rightarrow> matrix \<Rightarrow> matrix \<Rightarrow>
     truncation_variant \<Rightarrow> real \<Rightarrow> matrix" where
  "linalg_subspace_inversion K W0 ies_inversion E R S H truncation ies_steplength =
     (let ens_size = columns S;
          nrobs = rows S;
          X1 = matrix_alloc nrobs (min ens_size nrobs);
          eig = (\<lambda>i. 0);
          (X1, eig) = run_lowrank K (subspace_lowrank_call ies_inversion E R S) X1 eig truncation;
          X3 = matrix_alloc nrobs ens_size;
          X3 = enkf_linalg_genX3 X3 X1 H eig;
          W0 = matrix_dgemm W0 S X3 True False ies_steplength (1 - ies_steplength)
      in W0)"

text \<open>
  \<^verbatim>\<open>ies::linalg_exact_inversion\<close>. \<^verbatim>\<open>exact_StS\<close> is the matrix \<^verbatim>\<open>I + S'S\<close> the routine
  forms and decomposes; \<^verbatim>\<open>exact_invert_eig\<close> is the loop that replaces \<^verbatim>\<open>eig[i]\<close> by
  \<^verbatim>\<open>1.0 / eig[i]\<close> and scales row \<^verbatim>\<open>i\<close> of \<^verbatim>\<open>ZtStH\<close> by it. The doubles of the routine are
  read as reals, so \<^verbatim>\<open>exact_StS\<close> is the value of \<^verbatim>\<open>StS\<close> in exact arithmetic;
  \<^verbatim>\<open>exact_StS_double\<close> below is the same matrix with every operation rounded.
\<close>

definition exact_StS :: "matrix \<Rightarrow> matrix" where
  "exact_StS S =
     (let ens_size = columns S;
          StS = matrix_alloc ens_size ens_size;
          StS = matrix_diag_set_scalar StS 1;
          StS = matrix_dgemm StS S S True False 1 1
      in StS)"

definition exact_invert_eig ::
  "nat \<Rightarrow> (nat \<Rightarrow> real) \<Rightarrow> matrix \<Rightarrow> (nat \<Rightarrow> real) \<times> matrix" where
  "exact_invert_eig ens_size eig ZtStH =
     fold (\<lambda>i (eig, ZtStH).
             (let eig = eig(i := 1 / eig i)
              in (eig, matrix_scale_row ZtStH i (eig i))))
          [0..<ens_size] (eig, ZtStH)"

definition linalg_exact_inversion ::
  "linalg_kernel \<Rightarrow> matrix \<Rightarrow> int \<Rightarrow> matrix \<Rightarrow> matrix \<Rightarrow> real \<Rightarrow> matrix" where
  "linalg_exact_inversion K W0 ies_inversion S H ies_steplength =
     (let ens_size = columns S;
          Z = matrix_alloc ens_size ens_size;
          ZtStH = matrix_alloc ens_size ens_size;
          StH = matrix_alloc ens_size ens_size;
          StS = exact_StS S;
          eig = (\<lambda>i. 0);
          (eig, Z) = matrix_dgesvd_U K StS eig Z;
          StH = matrix_dgemm StH S H True False 1 0;
          ZtStH = matrix_dgemm ZtStH Z StH True False 1 0;
          (eig, ZtStH) = exact_invert_eig ens_size eig ZtStH;
          W0 = matrix_dgemm W0 Z ZtStH False False ies_steplength (1 - ies_steplength)
      in W0)"

text \<open>
  The cost function of the previous iterate, as \<^verbatim>\<open>ies_initX__\<close> accumulates it:
  \<^verbatim>\<open>local_costf\<close> sums \<^verbatim>\<open>costJ[i]\<close> over the columns and is divided by \<^verbatim>\<open>ens_size\<close>.
\<close>

definition ies_costf :: "matrix \<Rightarrow> matrix \<Rightarrow> nat \<Rightarrow> real" where
  "ies_costf W D ens_size =
     fold (\<lambda>i local_costf.
             local_costf + (matrix_column_column_dot_product W i W i +
                            matrix_column_column_dot_product D i D i))
          [0..<ens_size] 0
     / real ens_size"

text \<open>
  \<^verbatim>\<open>ies_initX__\<close> (a constant's name cannot end in an underscore, so it is
  \<^verbatim>\<open>ies_initX\<close> here). The argument \<^verbatim>\<open>A\<close> may be a null pointer (\<^verbatim>\<open>None\<close>); \<^verbatim>\<open>want_costf\<close>
  says whether the caller passed a place for the cost function. The result is the
  matrix \<^verbatim>\<open>X\<close>, the state with the new \<^verbatim>\<open>W\<close>, and the cost function if asked for.
\<close>

definition ies_initX ::
  "linalg_kernel \<Rightarrow> matrix option \<Rightarrow> matrix \<Rightarrow> matrix \<Rightarrow> matrix \<Rightarrow> matrix \<Rightarrow> matrix \<Rightarrow>
     int \<Rightarrow> truncation_variant \<Rightarrow> bool \<Rightarrow> data_type \<Rightarrow> real \<Rightarrow> int \<Rightarrow> bool \<Rightarrow>
     error + (matrix \<times> data_type \<times> real option)" where
  "ies_initX K A Y0 R E D X ies_inversion truncation use_aa_projection ies_data
       ies_steplength iteration_nr want_costf =
     (let ens_size = columns Y0;
          nrobs_inp = rows Y0;
          Y = matrix_alloc_copy Y0;
          H = matrix_alloc nrobs_inp ens_size;
          S = matrix_alloc nrobs_inp ens_size;
          nsc = 1 / sqrt (real ens_size - 1);
          Y = matrix_subtract_row_mean Y;
          Y = matrix_scale Y nsc;
          Y = (case A of
                 None \<Rightarrow> Y
               | Some A \<Rightarrow>
                   (let state_size = rows A
                    in if use_aa_projection \<and> int state_size \<le> int ens_size - 1
                       then linalg_compute_AA_projection K A Y
                       else Y))
      in case alloc_activeW ies_data of
           Inl e \<Rightarrow> Inl e
         | Inr W0 \<Rightarrow>
             (let S = linalg_solve_S K W0 Y S;
                  H = matrix_assign H D;
                  H = matrix_dgemm H S W0 False False 1 1;
                  W = matrix_alloc_copy W0;
                  W0 = (if ies_inversion \<noteq> IES_INVERSION_EXACT
                        then linalg_subspace_inversion K W0 ies_inversion E R S H
                               truncation ies_steplength
                        else if ies_inversion = IES_INVERSION_EXACT
                        then linalg_exact_inversion K W0 ies_inversion S H ies_steplength
                        else W0)
              in case linalg_store_active_W ies_data W0 of
                   Inl e \<Rightarrow> Inl e
                 | Inr ies_data \<Rightarrow>
                     (let X = matrix_assign X W0;
                          X = matrix_scale X nsc;
                          X = fold (\<lambda>i X. matrix_iadd X i i 1) [0..<ens_size] X;
                          DW = matrix_alloc ens_size ens_size;
                          DW = matrix_sub DW W0 W;
                          costf = (if want_costf then Some (ies_costf W D ens_size)
                                   else None)
                      in Inr (X, ies_data, costf))))"

section \<open>The update entry points\<close>

text \<open>
  Modelled from the spec: the log sink (sections 6 and 9). The logger of the module is
  \<^verbatim>\<open>ert::get_logger("ies")\<close>, which is not among the sources. A call hands it a level, a
  format template and the arguments for the template's \<^verbatim>\<open>{}\<close> places; the sink, here
  the list of the records it has received, renders and terminates them.
\<close>

datatype log_level = Info | Warning

datatype fmt_arg = Arg_int int | Arg_double real | Arg_string string

type_synonym log_record = "log_level \<times> string \<times> fmt_arg list"

definition logger_info :: "log_record list \<Rightarrow> string \<Rightarrow> fmt_arg list \<Rightarrow> log_record list" where
  "logger_info logger template args = logger @ [(Info, template, args)]"

definition logger_warning :: "log_record list \<Rightarrow> string \<Rightarrow> fmt_arg list \<Rightarrow> log_record list" where
  "logger_warning logger template args = logger @ [(Warning, template, args)]"

text \<open>
  Modelled from the spec: what the sink writes (section 6, "Log format (when logfile
  configured): newline-terminated text records"). With a logfile configured, each
  record the logger received is written as one line: the template with its \<^verbatim>\<open>{}\<close> places
  replaced, in order, by the formatted arguments, then a newline. With no logfile
  nothing is written. How an integer and a double are formatted is the formatter's,
  which is a parameter.
\<close>

record formatter =
  fmt_int :: "int \<Rightarrow> string"
  fmt_double :: "real \<Rightarrow> string"

definition format_arg :: "formatter \<Rightarrow> fmt_arg \<Rightarrow> string" where
  "format_arg F a =
     (case a of
        Arg_int k \<Rightarrow> fmt_int F k
      | Arg_double x \<Rightarrow> fmt_double F x
      | Arg_string str \<Rightarrow> str)"

fun render :: "formatter \<Rightarrow> string \<Rightarrow> fmt_arg list \<Rightarrow> string" where
  "render F (c # d # template) (a # args) =
     (if c = CHR ''{'' \<and> d = CHR ''}'' then format_arg F a @ render F template args
      else c # render F (d # template) (a # args))"
| "render F (c # template) args = c # render F template args"
| "render F [] args = []"

definition log_line :: "formatter \<Rightarrow> log_record \<Rightarrow> string" where
  "log_line F r = render F (fst (snd r)) (snd (snd r)) @ [CHR 0x0A]"

definition log_sink_text :: "string option \<Rightarrow> formatter \<Rightarrow> log_record list \<Rightarrow> string" where
  "log_sink_text logfile F records =
     (case logfile of
        None \<Rightarrow> []
      | Some path \<Rightarrow> concat (map (log_line F) records))"

text \<open>\<^verbatim>\<open>ies::init_update\<close>: \<^verbatim>\<open>S\<close>, \<^verbatim>\<open>R\<close>, \<^verbatim>\<open>dObs\<close>, \<^verbatim>\<open>E\<close> and \<^verbatim>\<open>D\<close> are not read.\<close>

definition init_update ::
  "data_type \<Rightarrow> bool_vector \<Rightarrow> bool_vector \<Rightarrow> matrix \<Rightarrow> matrix \<Rightarrow> matrix \<Rightarrow> matrix \<Rightarrow> matrix \<Rightarrow>
     error + data_type" where
  "init_update module_data ens_mask obs_mask S R dObs E D =
     (case data_update_ens_mask module_data ens_mask of
        Inl e \<Rightarrow> Inl e
      | Inr module_data \<Rightarrow>
          (let module_data = data_allocateW module_data;
               module_data = store_initial_obs_mask module_data obs_mask;
               module_data = update_obs_mask module_data obs_mask
           in Inr module_data))"

text \<open>
  \<^verbatim>\<open>ies::updateA\<close>. The result is the state, the updated ensemble \<^verbatim>\<open>A\<close> and the logger.
\<close>

definition updateA ::
  "linalg_kernel \<Rightarrow> log_record list \<Rightarrow> data_type \<Rightarrow> matrix \<Rightarrow> matrix \<Rightarrow> matrix \<Rightarrow> matrix \<Rightarrow>
     matrix \<Rightarrow> matrix \<Rightarrow> error + (data_type \<times> matrix \<times> log_record list)" where
  "updateA K logger module_data A Yin Rin dObs Ein Din =
     (let ies_data = module_data;
          ies_config = data_get_config ies_data;
          ens_size = columns Yin;
          state_size = rows A;
          (iteration_nr, ies_data) = data_inc_iteration_nr ies_data;
          ies_steplength = calculate_steplength ies_config iteration_nr;
          ies_data = data_update_state_size ies_data (int state_size);
          ies_data = data_store_initialE ies_data Ein;
          ies_data = data_augment_initialE ies_data Ein;
          ies_data = data_store_initialA ies_data A;
          Y = matrix_alloc_copy Yin;
          R = matrix_alloc_copy Rin
      in case alloc_activeE ies_data of
           Inl e \<Rightarrow> Inl e
         | Inr E \<Rightarrow>
             (let D = matrix_alloc_copy Din;
                  X = matrix_alloc ens_size ens_size;
                  D = matrix_inplace_sub D Ein;
                  D = matrix_inplace_add D E
              in case ies_initX K (if get_aaprojection ies_config then Some A else None)
                        Y R E D X (get_inversion ies_config) (get_truncation ies_config)
                        (get_aaprojection ies_config) ies_data ies_steplength iteration_nr
                        True of
                   Inl e \<Rightarrow> Inl e
                 | Inr (X, ies_data, None) \<Rightarrow> Inl StateError
                 | Inr (X, ies_data, Some costf) \<Rightarrow>
                     (let logger = logger_info logger ''IES  iter:{} cost function: {}''
                                     [Arg_int iteration_nr, Arg_double costf]
                      in case alloc_activeA ies_data of
                           Inl e \<Rightarrow> Inl e
                         | Inr A0 \<Rightarrow>
                             (let A = matrix_matmul A A0 X
                              in Inr (ies_data, A, logger)))))"

text \<open>
  \<^verbatim>\<open>ies::initX\<close>: \<^verbatim>\<open>ies_initX__\<close> on a temporary state, with step length 1 and no cost
  function. The configuration a fresh state starts with is a parameter.
\<close>

definition initX ::
  "linalg_kernel \<Rightarrow> config_type \<Rightarrow> config_type \<Rightarrow> matrix \<Rightarrow> matrix \<Rightarrow> matrix \<Rightarrow> matrix \<Rightarrow>
     matrix \<Rightarrow> error + matrix" where
  "initX K default_config ies_config Y0 R E D X =
     (let ies_data = data_alloc default_config;
          ens_size = columns Y0;
          obs_size = rows Y0;
          ens_mask = bool_vector_alloc ens_size True;
          obs_mask = bool_vector_alloc obs_size True;
          ies_data = update_obs_mask ies_data obs_mask
      in case data_update_ens_mask ies_data ens_mask of
           Inl e \<Rightarrow> Inl e
         | Inr ies_data \<Rightarrow>
             (let ies_data = data_allocateW ies_data;
                  use_aa_projection = False;
                  steplength = 1;
                  iteration_nr = 1
              in case ies_initX K None Y0 R E D X (get_inversion ies_config)
                        (get_truncation ies_config) use_aa_projection ies_data steplength
                        iteration_nr False of
                   Inl e \<Rightarrow> Inl e
                 | Inr (X, ies_data, costf) \<Rightarrow> Inr X))"

section \<open>Configuration keys and the dispatch table\<close>

definition ENKF_SUBSPACE_DIMENSION_KEY :: string where
  "ENKF_SUBSPACE_DIMENSION_KEY = ''ENKF_SUBSPACE_DIMENSION''"

definition ENKF_TRUNCATION_KEY :: string where
  "ENKF_TRUNCATION_KEY = ''ENKF_TRUNCATION''"

definition IES_MAX_STEPLENGTH_KEY :: string where
  "IES_MAX_STEPLENGTH_KEY = ''IES_MAX_STEPLENGTH''"

definition IES_MIN_STEPLENGTH_KEY :: string where
  "IES_MIN_STEPLENGTH_KEY = ''IES_MIN_STEPLENGTH''"

definition IES_DEC_STEPLENGTH_KEY :: string where
  "IES_DEC_STEPLENGTH_KEY = ''IES_DEC_STEPLENGTH''"

definition ITER_KEY :: string where
  "ITER_KEY = ''ITER''"

definition IES_DEBUG_KEY :: string where
  "IES_DEBUG_KEY = ''IES_DEBUG''"

definition IES_INVERSION_KEY :: string where
  "IES_INVERSION_KEY = ''IES_INVERSION''"

definition IES_LOGFILE_KEY :: string where
  "IES_LOGFILE_KEY = ''IES_LOGFILE''"

definition IES_AAPROJECTION_KEY :: string where
  "IES_AAPROJECTION_KEY = ''IES_AAPROJECTION''"

text \<open>
  The setters return whether the name was recognised, with the new state. A value the
  configuration refuses ends the call with the configuration's error.
\<close>

definition set_int :: "data_type \<Rightarrow> string \<Rightarrow> int \<Rightarrow> error + (bool \<times> data_type)" where
  "set_int module_data var_name v =
     (let config = data_get_config module_data
      in if var_name = ENKF_SUBSPACE_DIMENSION_KEY then
           (case set_subspace_dimension config v of
              Inl e \<Rightarrow> Inl e
            | Inr config \<Rightarrow> Inr (True, module_data\<lparr>data_config := config\<rparr>))
         else if var_name = ITER_KEY then
           Inr (True, data_set_iteration_nr module_data v)
         else if var_name = IES_INVERSION_KEY then
           (case set_inversion config v of
              Inl e \<Rightarrow> Inl e
            | Inr config \<Rightarrow> Inr (True, module_data\<lparr>data_config := config\<rparr>))
         else Inr (False, module_data))"

definition get_int :: "data_type \<Rightarrow> string \<Rightarrow> int" where
  "get_int module_data var_name =
     (let ies_config = data_get_config module_data
      in if var_name = ITER_KEY then data_get_iteration_nr module_data
         else if var_name = ENKF_SUBSPACE_DIMENSION_KEY then
           (case get_truncation ies_config of
              Truncation_int k \<Rightarrow> k
            | Truncation_double f \<Rightarrow> - 1)
         else if var_name = IES_INVERSION_KEY then get_inversion ies_config
         else - 1)"

definition set_string :: "data_type \<Rightarrow> string \<Rightarrow> string \<Rightarrow> bool \<times> data_type" where
  "set_string module_data var_name v =
     (let ies_config = data_get_config module_data
      in if var_name = IES_LOGFILE_KEY
         then (True, module_data\<lparr>data_config := set_logfile ies_config v\<rparr>)
         else (False, module_data))"

definition set_bool ::
  "log_record list \<Rightarrow> data_type \<Rightarrow> string \<Rightarrow> bool \<Rightarrow> bool \<times> data_type \<times> log_record list" where
  "set_bool logger module_data var_name v =
     (let ies_config = data_get_config module_data
      in if var_name = IES_AAPROJECTION_KEY
         then (True, module_data\<lparr>data_config := set_aaprojection ies_config v\<rparr>, logger)
         else if var_name = IES_DEBUG_KEY
         then (True, module_data,
               logger_warning logger ''The key {} is ignored'' [Arg_string IES_DEBUG_KEY])
         else (False, module_data, logger))"

definition get_bool :: "data_type \<Rightarrow> string \<Rightarrow> bool" where
  "get_bool module_data var_name =
     (let ies_config = data_get_config module_data
      in if var_name = IES_AAPROJECTION_KEY then get_aaprojection ies_config
         else False)"

definition set_double :: "data_type \<Rightarrow> string \<Rightarrow> real \<Rightarrow> error + (bool \<times> data_type)" where
  "set_double module_data var_name v =
     (let ies_config = data_get_config module_data
      in if var_name = ENKF_TRUNCATION_KEY then
           (case set_truncation ies_config v of
              Inl e \<Rightarrow> Inl e
            | Inr config \<Rightarrow> Inr (True, module_data\<lparr>data_config := config\<rparr>))
         else if var_name = IES_MAX_STEPLENGTH_KEY then
           (case set_max_steplength ies_config v of
              Inl e \<Rightarrow> Inl e
            | Inr config \<Rightarrow> Inr (True, module_data\<lparr>data_config := config\<rparr>))
         else if var_name = IES_MIN_STEPLENGTH_KEY then
           (case set_min_steplength ies_config v of
              Inl e \<Rightarrow> Inl e
            | Inr config \<Rightarrow> Inr (True, module_data\<lparr>data_config := config\<rparr>))
         else if var_name = IES_DEC_STEPLENGTH_KEY then
           (case set_dec_steplength ies_config v of
              Inl e \<Rightarrow> Inl e
            | Inr config \<Rightarrow> Inr (True, module_data\<lparr>data_config := config\<rparr>))
         else Inr (False, module_data))"

definition get_double :: "data_type \<Rightarrow> string \<Rightarrow> real" where
  "get_double module_data var_name =
     (let ies_config = data_get_config module_data
      in if var_name = ENKF_TRUNCATION_KEY then
           (case get_truncation ies_config of
              Truncation_double f \<Rightarrow> f
            | Truncation_int k \<Rightarrow> - 1)
         else if var_name = IES_MAX_STEPLENGTH_KEY then get_max_steplength ies_config
         else if var_name = IES_MIN_STEPLENGTH_KEY then get_min_steplength ies_config
         else if var_name = IES_DEC_STEPLENGTH_KEY then get_dec_steplength ies_config
         else - 1)"

definition has_var :: "string \<Rightarrow> bool" where
  "has_var var_name =
     (if var_name = ITER_KEY then True
      else if var_name = IES_MAX_STEPLENGTH_KEY then True
      else if var_name = IES_MIN_STEPLENGTH_KEY then True
      else if var_name = IES_DEC_STEPLENGTH_KEY then True
      else if var_name = IES_INVERSION_KEY then True
      else if var_name = IES_LOGFILE_KEY then True
      else if var_name = IES_DEBUG_KEY then True
      else if var_name = IES_AAPROJECTION_KEY then True
      else if var_name = ENKF_TRUNCATION_KEY then True
      else if var_name = ENKF_SUBSPACE_DIMENSION_KEY then True
      else False)"

definition get_ptr :: "data_type \<Rightarrow> string \<Rightarrow> string option" where
  "get_ptr module_data var_name =
     (let ies_config = data_get_config module_data
      in if var_name = IES_LOGFILE_KEY then get_logfile ies_config else None)"

text \<open>
  The dispatch table \<^verbatim>\<open>analysis_table_type IES_ENKF\<close>. A slot holds a pointer to one of
  the functions of the module or is \<^verbatim>\<open>NULL\<close> (\<^verbatim>\<open>None\<close>); \<^verbatim>\<open>module_function\<close> names the
  functions a slot can point to.
\<close>

datatype module_function =
  Fn_updateA | Fn_initX | Fn_init_update | Fn_data_free | Fn_data_alloc
  | Fn_set_int | Fn_set_double | Fn_set_bool | Fn_set_string
  | Fn_get_options | Fn_has_var | Fn_get_int | Fn_get_double | Fn_get_bool | Fn_get_ptr

record analysis_table_type =
  table_name :: string
  table_updateA :: "module_function option"
  table_initX :: "module_function option"
  table_init_update :: "module_function option"
  table_complete_update :: "module_function option"
  table_freef :: "module_function option"
  table_alloc :: "module_function option"
  table_set_int :: "module_function option"
  table_set_double :: "module_function option"
  table_set_bool :: "module_function option"
  table_set_string :: "module_function option"
  table_get_options :: "module_function option"
  table_has_var :: "module_function option"
  table_get_int :: "module_function option"
  table_get_double :: "module_function option"
  table_get_bool :: "module_function option"
  table_get_ptr :: "module_function option"

definition IES_ENKF :: analysis_table_type where
  "IES_ENKF =
     \<lparr>table_name = ''IES_ENKF'',
      table_updateA = Some Fn_updateA,
      table_initX = None,
      table_init_update = Some Fn_init_update,
      table_complete_update = None,
      table_freef = Some Fn_data_free,
      table_alloc = Some Fn_data_alloc,
      table_set_int = Some Fn_set_int,
      table_set_double = Some Fn_set_double,
      table_set_bool = Some Fn_set_bool,
      table_set_string = Some Fn_set_string,
      table_get_options = Some Fn_get_options,
      table_has_var = Some Fn_has_var,
      table_get_int = Some Fn_get_int,
      table_get_double = Some Fn_get_double,
      table_get_bool = Some Fn_get_bool,
      table_get_ptr = Some Fn_get_ptr\<rparr>"

text \<open>The function slots of a table, in the order of the initialiser.\<close>

definition table_slots :: "analysis_table_type \<Rightarrow> module_function option list" where
  "table_slots t =
     [table_updateA t, table_initX t, table_init_update t, table_complete_update t,
      table_freef t, table_alloc t, table_set_int t, table_set_double t, table_set_bool t,
      table_set_string t, table_get_options t, table_has_var t, table_get_int t,
      table_get_double t, table_get_bool t, table_get_ptr t]"

section \<open>Auxiliary notions and example inputs\<close>

subsection \<open>Notions used in the statements\<close>

text \<open>
  The intermediate values of \<^verbatim>\<open>ies_initX__\<close>, named after its local variables: the
  scaled and projected anomalies \<^verbatim>\<open>Y\<close>, the solution \<^verbatim>\<open>S\<close>, the innovation \<^verbatim>\<open>H\<close>, the
  updated \<^verbatim>\<open>W0\<close> and the transform \<^verbatim>\<open>X\<close>. Lemma \<^verbatim>\<open>ies_initX_unfold\<close> shows that
  \<^verbatim>\<open>ies_initX\<close> computes exactly these.
\<close>

definition initX_Y :: "linalg_kernel \<Rightarrow> matrix option \<Rightarrow> matrix \<Rightarrow> bool \<Rightarrow> matrix" where
  "initX_Y K A Y0 use_aa_projection =
     (let Y = matrix_scale (matrix_subtract_row_mean (matrix_alloc_copy Y0))
                (1 / sqrt (real (columns Y0) - 1))
      in case A of
           None \<Rightarrow> Y
         | Some A \<Rightarrow>
             if use_aa_projection \<and> int (rows A) \<le> int (columns Y0) - 1
             then linalg_compute_AA_projection K A Y
             else Y)"

definition initX_S :: "linalg_kernel \<Rightarrow> matrix option \<Rightarrow> matrix \<Rightarrow> bool \<Rightarrow> matrix \<Rightarrow> matrix" where
  "initX_S K A Y0 use_aa_projection W0 =
     linalg_solve_S K W0 (initX_Y K A Y0 use_aa_projection)
       (matrix_alloc (rows Y0) (columns Y0))"

definition initX_H ::
  "linalg_kernel \<Rightarrow> matrix option \<Rightarrow> matrix \<Rightarrow> bool \<Rightarrow> matrix \<Rightarrow> matrix \<Rightarrow> matrix" where
  "initX_H K A Y0 use_aa_projection D W0 =
     matrix_dgemm (matrix_assign (matrix_alloc (rows Y0) (columns Y0)) D)
       (initX_S K A Y0 use_aa_projection W0) W0 False False 1 1"

definition initX_W0 ::
  "linalg_kernel \<Rightarrow> matrix option \<Rightarrow> matrix \<Rightarrow> matrix \<Rightarrow> matrix \<Rightarrow> matrix \<Rightarrow> int \<Rightarrow>
     truncation_variant \<Rightarrow> bool \<Rightarrow> real \<Rightarrow> matrix \<Rightarrow> matrix" where
  "initX_W0 K A Y0 R E D ies_inversion truncation use_aa_projection ies_steplength W0 =
     (if ies_inversion \<noteq> IES_INVERSION_EXACT
      then linalg_subspace_inversion K W0 ies_inversion E R
             (initX_S K A Y0 use_aa_projection W0) (initX_H K A Y0 use_aa_projection D W0)
             truncation ies_steplength
      else linalg_exact_inversion K W0 ies_inversion
             (initX_S K A Y0 use_aa_projection W0) (initX_H K A Y0 use_aa_projection D W0)
             ies_steplength)"

definition initX_X :: "matrix \<Rightarrow> matrix \<Rightarrow> nat \<Rightarrow> matrix" where
  "initX_X X W0 ens_size =
     fold (\<lambda>i X. matrix_iadd X i i 1) [0..<ens_size]
       (matrix_scale (matrix_assign X W0) (1 / sqrt (real ens_size - 1)))"

text \<open>
  The state \<^verbatim>\<open>updateA\<close> has built when it slices the stored matrices: the iteration
  counter is incremented, the state size recorded, and the initial \<^verbatim>\<open>E\<close> and \<^verbatim>\<open>A\<close> stored
  or augmented. Lemma \<^verbatim>\<open>updateA_unfold\<close> shows that \<^verbatim>\<open>updateA\<close> continues from it.
\<close>

definition updateA_state :: "data_type \<Rightarrow> matrix \<Rightarrow> matrix \<Rightarrow> data_type" where
  "updateA_state module_data A Ein =
     data_store_initialA
       (data_augment_initialE
          (data_store_initialE
             (data_update_state_size (snd (data_inc_iteration_nr module_data)) (int (rows A)))
             Ein)
          Ein)
       A"

text \<open>
  The update of the exact inversion in the words of the spec (section 4.E, mode 1), over
  the usual matrix operations: identity, product, transpose, sum, scalar multiple and
  diagonal matrix. The decomposition is the one the kernel returns for \<^verbatim>\<open>StS\<close>.
\<close>

definition mat_identity :: "nat \<Rightarrow> matrix" where
  "mat_identity n = \<lparr>rows = n, columns = n, data = (\<lambda>i j. if i = j then 1 else 0)\<rparr>"

definition mat_diag :: "nat \<Rightarrow> (nat \<Rightarrow> real) \<Rightarrow> matrix" where
  "mat_diag n d = \<lparr>rows = n, columns = n, data = (\<lambda>i j. if i = j then d i else 0)\<rparr>"

definition mat_transpose :: "matrix \<Rightarrow> matrix" where
  "mat_transpose A = \<lparr>rows = columns A, columns = rows A, data = (\<lambda>i j. data A j i)\<rparr>"

definition mat_mult :: "matrix \<Rightarrow> matrix \<Rightarrow> matrix" where
  "mat_mult A B =
     \<lparr>rows = rows A, columns = columns B,
      data = (\<lambda>i j. \<Sum>k<columns A. data A i k * data B k j)\<rparr>"

definition mat_add :: "matrix \<Rightarrow> matrix \<Rightarrow> matrix" where
  "mat_add A B =
     \<lparr>rows = rows A, columns = columns A, data = (\<lambda>i j. data A i j + data B i j)\<rparr>"

definition mat_smult :: "real \<Rightarrow> matrix \<Rightarrow> matrix" where
  "mat_smult c A = \<lparr>rows = rows A, columns = columns A, data = (\<lambda>i j. c * data A i j)\<rparr>"

definition exact_inversion_spec ::
  "linalg_kernel \<Rightarrow> matrix \<Rightarrow> matrix \<Rightarrow> matrix \<Rightarrow> real \<Rightarrow> matrix" where
  "exact_inversion_spec K W0 S H gamma =
     (let n = columns S;
          StS = mat_add (mat_identity n) (mat_mult (mat_transpose S) S)
      in case kernel_dgesvd K DGESVD_ALL DGESVD_NONE StS of
           (Lambda, z, vt) \<Rightarrow>
             (let Z = \<lparr>rows = n, columns = n, data = z\<rparr>
              in mat_add (mat_smult (1 - gamma) W0)
                   (mat_smult gamma
                      (mat_mult Z
                         (mat_mult (mat_diag n (\<lambda>i. 1 / Lambda i))
                            (mat_mult (mat_transpose Z) (mat_mult (mat_transpose S) H)))))))"






subsection \<open>Example inputs\<close>

text \<open>
  A configuration with the step-length parameters of scenario S5, and the state a fresh
  allocation gives it.
\<close>

definition example_config :: config_type where
  "example_config =
     \<lparr>cfg_truncation = Truncation_double (97 / 100), cfg_inversion = 0,
      cfg_aaprojection = False, cfg_max_steplength = 6 / 10, cfg_min_steplength = 3 / 10,
      cfg_dec_steplength = 5 / 2, cfg_logfile = None\<rparr>"

definition example_data :: data_type where
  "example_data = data_alloc example_config"

text \<open>
  The states of scenario S6: a fraction 0.97 is stored, then the dimension 5.
\<close>

definition example_data_fraction :: data_type where
  "example_data_fraction =
     example_data\<lparr>data_config := example_config\<lparr>cfg_truncation := Truncation_double (97 / 100)\<rparr>\<rparr>"

definition example_data_dimension :: data_type where
  "example_data_dimension =
     example_data\<lparr>data_config := example_config\<lparr>cfg_truncation := Truncation_int 5\<rparr>\<rparr>"

text \<open>
  A state of three realisations of which the second is inactive, with a \<^verbatim>\<open>W\<close> whose
  entries are all different.
\<close>

definition example_W :: matrix where
  "example_W = \<lparr>rows = 3, columns = 3, data = (\<lambda>i j. real (3 * i + j + 1))\<rparr>"

definition example_mask_data :: data_type where
  "example_mask_data =
     (data_alloc example_config)
       \<lparr>data_W := Some example_W, data_ens_mask := Some [True, False, True]\<rparr>"

text \<open>
  Inputs of \<^verbatim>\<open>linalg_subspace_inversion\<close> for three realisations and one observation.
\<close>

definition example_S3 :: matrix where
  "example_S3 = \<lparr>rows = 1, columns = 3, data = (\<lambda>i j. real j)\<rparr>"

definition example_R1 :: matrix where
  "example_R1 = \<lparr>rows = 1, columns = 1, data = (\<lambda>i j. if i = 0 \<and> j = 0 then 1 else 0)\<rparr>"

definition example_E3 :: matrix where
  "example_E3 = matrix_alloc 1 3"

text \<open>
  An example kernel. Its decomposition returns the singular values 2 and 1 with identity
  factors, which is the decomposition of \<^verbatim>\<open>I + S'S\<close> for \<^verbatim>\<open>example_S2\<close>; its solver returns
  the right-hand side, which solves a system whose matrix is the identity; its low-rank
  routines return zeros.
\<close>

definition example_kernel :: linalg_kernel where
  "example_kernel =
     \<lparr>kernel_dgesvd = (\<lambda>jobu jobvt A.
        ((\<lambda>i. if i = 0 then 2 else 1),
         (\<lambda>i j. if i = j then 1 else 0),
         (\<lambda>i j. if i = j then 1 else 0))),
      kernel_dgesvx = (\<lambda>A B. data B),
      kernel_lowrankE = (\<lambda>S E X1 eig truncation. ((\<lambda>i j. 0), (\<lambda>i. 0))),
      kernel_lowrankCinv = (\<lambda>S C X1 eig truncation. ((\<lambda>i j. 0), (\<lambda>i. 0)))\<rparr>"


text \<open>
  States of two active realisations whose \<^verbatim>\<open>W\<close> is zero, the second as \<^verbatim>\<open>init_update\<close>
  leaves it for one active observation, and predicted measurements of one observation.
\<close>

definition example_zero_data :: data_type where
  "example_zero_data =
     (data_alloc example_config)
       \<lparr>data_W := Some (matrix_alloc 2 2), data_ens_mask := Some [True, True]\<rparr>"

definition example_update_data :: data_type where
  "example_update_data =
     (data_alloc example_config)
       \<lparr>data_W := Some (matrix_alloc 2 2), data_ens_mask := Some [True, True],
        data_obs_mask0 := Some [True], data_obs_mask := Some [True]\<rparr>"

text \<open>
  A call of \<^verbatim>\<open>updateA\<close> with a logfile configured, on the state \<^verbatim>\<open>init_update\<close> returns for
  a fresh allocation (lemma \<^verbatim>\<open>init_update_example_log\<close>): three realisations of which the
  second is inactive, one observation, one parameter, and a \<^verbatim>\<open>W\<close> that is zero. The predicted
  measurements of the two active realisations are equal, so the anomalies \<^verbatim>\<open>S\<close> are zero
  and \<^verbatim>\<open>I + S'S\<close> is the identity, whose decomposition (singular values 1, identity
  factors) the kernel of the example returns; its solver returns the right-hand side,
  which solves the system of the identity matrix \<^verbatim>\<open>Omega\<close>.
\<close>

definition example_log_data :: data_type where
  "example_log_data =
     (data_alloc (example_config\<lparr>cfg_logfile := Some ''ies.log''\<rparr>))
       \<lparr>data_W := Some (matrix_alloc 3 3), data_ens_mask := Some [True, False, True],
        data_obs_mask0 := Some [True], data_obs_mask := Some [True]\<rparr>"

definition example_unit_kernel :: linalg_kernel where
  "example_unit_kernel =
     \<lparr>kernel_dgesvd = (\<lambda>jobu jobvt A.
        ((\<lambda>i. 1), (\<lambda>i j. if i = j then 1 else 0), (\<lambda>i j. if i = j then 1 else 0))),
      kernel_dgesvx = (\<lambda>A B. data B),
      kernel_lowrankE = (\<lambda>S E X1 eig truncation. ((\<lambda>i j. 0), (\<lambda>i. 0))),
      kernel_lowrankCinv = (\<lambda>S C X1 eig truncation. ((\<lambda>i j. 0), (\<lambda>i. 0)))\<rparr>"

definition example_Yin :: matrix where
  "example_Yin = \<lparr>rows = 1, columns = 2, data = (\<lambda>i j. if i = 0 \<and> j < 2 then 1 else 0)\<rparr>"

definition example_Din :: matrix where
  "example_Din = \<lparr>rows = 1, columns = 2, data = (\<lambda>i j. if i = 0 \<and> j < 2 then 2 else 0)\<rparr>"

definition example_Ein :: matrix where
  "example_Ein =
     \<lparr>rows = 1, columns = 2,
      data = (\<lambda>i j. if i = 0 \<and> j = 0 then 1 / 2 else if i = 0 \<and> j = 1 then - 1 / 2 else 0)\<rparr>"

text \<open>
  An example formatter: integers in decimal, and a double by the decimal of its integer
  part.
\<close>

fun show_nat :: "nat \<Rightarrow> string" where
  "show_nat n =
     (if n < 10 then [''0123456789'' ! n]
      else show_nat (n div 10) @ [''0123456789'' ! (n mod 10)])"

definition show_int :: "int \<Rightarrow> string" where
  "show_int k = (if k < 0 then CHR ''-'' # show_nat (nat (- k)) else show_nat (nat k))"

definition example_formatter :: formatter where
  "example_formatter = \<lparr>fmt_int = show_int, fmt_double = (\<lambda>x. show_int \<lfloor>x\<rfloor>)\<rparr>"





definition example_Y0 :: matrix where
  "example_Y0 = \<lparr>rows = 1, columns = 2, data = (\<lambda>i j. if j = 0 then 1 else 3)\<rparr>"

section \<open>Properties of the active slices\<close>

declare show_nat.simps [simp del]

lemma active_rank_0: "active_rank msk 0 = 0"
  by (simp add: active_rank_def bool_vector_count_equal_def)

lemma active_rank_Suc:
  "n < length msk \<Longrightarrow>
   active_rank msk (Suc n) = (if msk ! n then Suc (active_rank msk n) else active_rank msk n)"
  by (simp add: active_rank_def bool_vector_count_equal_def take_Suc_conv_app_nth)

lemma active_rank_mono: "i \<le> j \<Longrightarrow> j \<le> length msk \<Longrightarrow> active_rank msk i \<le> active_rank msk j"
proof (induction j)
  case 0
  then show ?case by simp
next
  case (Suc j)
  show ?case
  proof (cases "i = Suc j")
    case True
    then show ?thesis by simp
  next
    case False
    with Suc have "active_rank msk i \<le> active_rank msk j" by simp
    moreover have "active_rank msk j \<le> active_rank msk (Suc j)"
      using Suc.prems by (simp add: active_rank_Suc)
    ultimately show ?thesis by simp
  qed
qed

lemma active_rank_less:
  assumes "i < j" "j \<le> length msk" "msk ! i"
  shows "active_rank msk i < active_rank msk j"
proof -
  have "active_rank msk (Suc i) = Suc (active_rank msk i)"
    using assms by (simp add: active_rank_Suc)
  moreover have "active_rank msk (Suc i) \<le> active_rank msk j"
    using assms by (intro active_rank_mono) simp_all
  ultimately show ?thesis by simp
qed

lemma active_rank_length: "active_rank msk (length msk) = bool_vector_count_equal msk True"
  by (simp add: active_rank_def)

text \<open>The inner loop of alloc_active after n steps.\<close>

lemma alloc_row_fold:
  assumes "n \<le> length cm"
  shows "\<exists>a'. fold (\<lambda>iens (column, active).
             if bool_vector_iget cm iens
             then (column + 1,
                   matrix_iset active row column (matrix_iget full iobs iens))
             else (column, active)) [0..<n] (0, a) = (active_rank cm n, a')
        \<and> rows a' = rows a \<and> columns a' = columns a
        \<and> (\<forall>j<n. cm ! j \<longrightarrow> data a' row (active_rank cm j) = data full iobs j)
        \<and> (\<forall>r c. r \<noteq> row \<or> active_rank cm n \<le> c \<longrightarrow> data a' r c = data a r c)"
  using assms
proof (induction n)
  case 0
  then show ?case by (simp add: active_rank_0)
next
  case (Suc n)
  then obtain a' where IH:
    "fold (\<lambda>iens (column, active).
             if bool_vector_iget cm iens
             then (column + 1,
                   matrix_iset active row column (matrix_iget full iobs iens))
             else (column, active)) [0..<n] (0, a) = (active_rank cm n, a')"
    "rows a' = rows a" "columns a' = columns a"
    "\<forall>j<n. cm ! j \<longrightarrow> data a' row (active_rank cm j) = data full iobs j"
    "\<forall>r c. r \<noteq> row \<or> active_rank cm n \<le> c \<longrightarrow> data a' r c = data a r c"
    by auto
  have n: "n < length cm" using Suc.prems by simp
  show ?case
  proof (cases "cm ! n")
    case False
    then show ?thesis
      using IH n
      by (auto simp: active_rank_Suc bool_vector_iget_def less_Suc_eq)
  next
    case True
    have lt: "\<And>j. j < n \<Longrightarrow> cm ! j \<Longrightarrow> active_rank cm j < active_rank cm n"
      using n by (simp add: active_rank_less)
    show ?thesis
      using IH n True
      apply (simp add: active_rank_Suc bool_vector_iget_def matrix_iset_def matrix_iget_def)
      apply (intro conjI allI impI)
       apply (auto simp: less_Suc_eq dest: lt)
      done
  qed
qed

lemma alloc_active_row_spec:
  "\<exists>a'. alloc_active_row full cm iobs row a = (active_rank cm (length cm), a')
     \<and> rows a' = rows a \<and> columns a' = columns a
     \<and> (\<forall>j<length cm. cm ! j \<longrightarrow> data a' row (active_rank cm j) = data full iobs j)
     \<and> (\<forall>r c. r \<noteq> row \<longrightarrow> data a' r c = data a r c)"
  using alloc_row_fold[of "length cm" cm row full iobs a]
  unfolding alloc_active_row_def bool_vector_size_def by auto

lemma alloc_active_fold:
  assumes "n \<le> length rm"
  shows "\<exists>a'. fold (\<lambda>iobs (row, active).
                      if bool_vector_iget rm iobs
                      then (row + 1,
                            snd (alloc_active_row full cm iobs row active))
                      else (row, active)) [0..<n] (0, a) = (active_rank rm n, a')
        \<and> rows a' = rows a \<and> columns a' = columns a
        \<and> (\<forall>i<n. rm ! i \<longrightarrow> (\<forall>j<length cm. cm ! j \<longrightarrow>
               data a' (active_rank rm i) (active_rank cm j) = data full i j))
        \<and> (\<forall>r c. active_rank rm n \<le> r \<longrightarrow> data a' r c = data a r c)"
  using assms
proof (induction n)
  case 0
  then show ?case by (simp add: active_rank_0)
next
  case (Suc n)
  then obtain a' where IH:
    "fold (\<lambda>iobs (row, active).
                      if bool_vector_iget rm iobs
                      then (row + 1,
                            snd (alloc_active_row full cm iobs row active))
                      else (row, active)) [0..<n] (0, a) = (active_rank rm n, a')"
    "rows a' = rows a" "columns a' = columns a"
    "\<forall>i<n. rm ! i \<longrightarrow> (\<forall>j<length cm. cm ! j \<longrightarrow>
               data a' (active_rank rm i) (active_rank cm j) = data full i j)"
    "\<forall>r c. active_rank rm n \<le> r \<longrightarrow> data a' r c = data a r c"
    by auto
  have n: "n < length rm" using Suc.prems by simp
  show ?case
  proof (cases "rm ! n")
    case False
    then show ?thesis
      using IH n
      by (auto simp: active_rank_Suc bool_vector_iget_def less_Suc_eq)
  next
    case True
    obtain b where b:
      "alloc_active_row full cm n (active_rank rm n) a' = (active_rank cm (length cm), b)"
      "rows b = rows a'" "columns b = columns a'"
      "\<And>j. j < length cm \<Longrightarrow> cm ! j \<Longrightarrow>
         data b (active_rank rm n) (active_rank cm j) = data full n j"
      "\<And>r c. r \<noteq> active_rank rm n \<Longrightarrow> data b r c = data a' r c"
      using alloc_active_row_spec[of full cm n "active_rank rm n" a'] by blast
    have lt: "\<And>i. i < n \<Longrightarrow> rm ! i \<Longrightarrow> active_rank rm i < active_rank rm n"
      using n by (simp add: active_rank_less)
    have "\<forall>i<Suc n. rm ! i \<longrightarrow> (\<forall>j<length cm. cm ! j \<longrightarrow>
               data b (active_rank rm i) (active_rank cm j) = data full i j)"
    proof (intro allI impI)
      fix i j assume ij: "i < Suc n" "rm ! i" "j < length cm" "cm ! j"
      show "data b (active_rank rm i) (active_rank cm j) = data full i j"
      proof (cases "i = n")
        case True
        then show ?thesis using b(4) ij by simp
      next
        case False
        then have "i < n" using ij by simp
        then show ?thesis using lt[of i] b(5) IH(4) ij by simp
      qed
    qed
    moreover have "\<forall>r c. active_rank rm (Suc n) \<le> r \<longrightarrow> data b r c = data a r c"
      using b(5) IH(5) n True by (simp add: active_rank_Suc)
    ultimately show ?thesis
      using IH(1,2,3) b(1,2,3) n True
      by (simp add: active_rank_Suc bool_vector_iget_def)
  qed
qed

lemma alloc_active_entry:
  assumes "i < length rm" "rm ! i" "j < length cm" "cm ! j"
  shows "data (alloc_active full rm cm) (active_rank rm i) (active_rank cm j) = data full i j"
  using alloc_active_fold[of "length rm" rm full cm
      "matrix_alloc (bool_vector_count_equal rm True) (bool_vector_count_equal cm True)"] assms
  unfolding alloc_active_def bool_vector_size_def Let_def by auto

lemma alloc_active_shape:
  "rows (alloc_active full rm cm) = bool_vector_count_equal rm True"
  "columns (alloc_active full rm cm) = bool_vector_count_equal cm True"
  using alloc_active_fold[of "length rm" rm full cm
      "matrix_alloc (bool_vector_count_equal rm True) (bool_vector_count_equal cm True)"]
  unfolding alloc_active_def bool_vector_size_def Let_def by (auto simp: matrix_alloc_def)

text \<open>The inner loop of linalg_store_active_W after n steps.\<close>

lemma store_row_fold:
  assumes "n \<le> length em" "iens < rows a" "length em \<le> columns a"
  shows "\<exists>a'. fold (\<lambda>jens (j, dataW).
             if bool_vector_iget em jens
             then (j + 1, matrix_iset_safe dataW iens jens (matrix_iget W0 i j))
             else (j, dataW)) [0..<n] (0, a) = (active_rank em n, a')
        \<and> rows a' = rows a \<and> columns a' = columns a
        \<and> (\<forall>r c. data a' r c =
              (if r = iens \<and> c < n \<and> em ! c then data W0 i (active_rank em c) else data a r c))"
  using assms
proof (induction n)
  case 0
  then show ?case by (simp add: active_rank_0)
next
  case (Suc n)
  then obtain a' where IH:
    "fold (\<lambda>jens (j, dataW).
             if bool_vector_iget em jens
             then (j + 1, matrix_iset_safe dataW iens jens (matrix_iget W0 i j))
             else (j, dataW)) [0..<n] (0, a) = (active_rank em n, a')"
    "rows a' = rows a" "columns a' = columns a"
    "\<forall>r c. data a' r c =
              (if r = iens \<and> c < n \<and> em ! c then data W0 i (active_rank em c) else data a r c)"
    by auto
  have n: "n < length em" using Suc.prems by simp
  then have nc: "n < columns a'" using Suc.prems IH(3) by simp
  have ir: "iens < rows a'" using Suc.prems IH(2) by simp
  show ?case
    using IH n nc ir
    by (auto simp: active_rank_Suc bool_vector_iget_def matrix_iset_safe_def matrix_iset_def
        matrix_iget_def less_Suc_eq)
qed

lemma store_active_W_row_spec:
  assumes "iens < rows a" "length em \<le> columns a"
  shows "\<exists>a'. store_active_W_row W0 em iens i a = (active_rank em (length em), a')
    \<and> rows a' = rows a \<and> columns a' = columns a
    \<and> (\<forall>r c. data a' r c =
        (if r = iens \<and> c < length em \<and> em ! c then data W0 i (active_rank em c)
         else data a r c))"
  using store_row_fold[of "length em" em iens a W0 i] assms
  unfolding store_active_W_row_def bool_vector_size_def by auto

lemma store_active_fold:
  assumes "n \<le> length em" "length em \<le> rows a" "length em \<le> columns a"
  shows "\<exists>a'. fold (\<lambda>iens (i, dataW).
                        if bool_vector_iget em iens
                        then (i + 1, snd (store_active_W_row W0 em iens i dataW))
                        else (i, dataW)) [0..<n] (0, a) = (active_rank em n, a')
        \<and> rows a' = rows a \<and> columns a' = columns a
        \<and> (\<forall>r c. data a' r c =
              (if r < n \<and> em ! r \<and> c < length em \<and> em ! c
               then data W0 (active_rank em r) (active_rank em c) else data a r c))"
  using assms
proof (induction n)
  case 0
  then show ?case by (simp add: active_rank_0)
next
  case (Suc n)
  then obtain a' where IH:
    "fold (\<lambda>iens (i, dataW).
                        if bool_vector_iget em iens
                        then (i + 1, snd (store_active_W_row W0 em iens i dataW))
                        else (i, dataW)) [0..<n] (0, a) = (active_rank em n, a')"
    "rows a' = rows a" "columns a' = columns a"
    "\<forall>r c. data a' r c =
              (if r < n \<and> em ! r \<and> c < length em \<and> em ! c
               then data W0 (active_rank em r) (active_rank em c) else data a r c)"
    by auto
  have n: "n < length em" using Suc.prems by simp
  show ?case
  proof (cases "em ! n")
    case False
    then show ?thesis
      using IH n
      by (auto simp: active_rank_Suc bool_vector_iget_def less_Suc_eq)
  next
    case True
    have "n < rows a'" "length em \<le> columns a'" using n Suc.prems IH(2,3) by simp_all
    then obtain b where b:
      "store_active_W_row W0 em n (active_rank em n) a' = (active_rank em (length em), b)"
      "rows b = rows a'" "columns b = columns a'"
      "\<And>r c. data b r c =
        (if r = n \<and> c < length em \<and> em ! c
         then data W0 (active_rank em n) (active_rank em c) else data a' r c)"
      using store_active_W_row_spec[of n a' em W0 "active_rank em n"] by blast
    show ?thesis
      using IH b n True
      by (auto simp: active_rank_Suc bool_vector_iget_def less_Suc_eq)
  qed
qed

lemma store_active_W_entry:
  assumes "data_W ies_data = Some W" "data_ens_mask ies_data = Some em"
    "rows W = length em" "columns W = length em"
  shows "\<exists>W'. linalg_store_active_W ies_data W0 = Inr (ies_data\<lparr>data_W := Some W'\<rparr>)
      \<and> rows W' = length em \<and> columns W' = length em
      \<and> (\<forall>r c. data W' r c =
            (if r < length em \<and> em ! r \<and> c < length em \<and> em ! c
             then data W0 (active_rank em r) (active_rank em c) else 0))"
  using store_active_fold[of "length em" em "matrix_set W 0" W0] assms
  unfolding linalg_store_active_W_def bool_vector_size_def Let_def
  by (auto simp: matrix_set_def)

text \<open>
  Claim C4. In a state that holds an \<^verbatim>\<open>ens_mask\<close> and a \<^verbatim>\<open>W\<close> of the mask's size in both
  directions, extracting the active sub-matrix with \<^verbatim>\<open>alloc_activeW\<close>, that is
  \<^verbatim>\<open>alloc_active(W, ens_mask, ens_mask)\<close>, and writing it back with
  \<^verbatim>\<open>linalg_store_active_W\<close> succeeds, leaves every entry of \<^verbatim>\<open>W\<close> at an (active, active)
  index pair as it was and leaves every other entry zero.
\<close>

theorem active_slice_round_trip:
  assumes "data_W ies_data = Some W" and "data_ens_mask ies_data = Some ens_mask"
    and "rows W = length ens_mask" and "columns W = length ens_mask"
  shows "\<exists>W0 W'. alloc_activeW ies_data = Inr W0
      \<and> linalg_store_active_W ies_data W0 = Inr (ies_data\<lparr>data_W := Some W'\<rparr>)
      \<and> rows W' = length ens_mask \<and> columns W' = length ens_mask
      \<and> (\<forall>i<length ens_mask. \<forall>j<length ens_mask.
            matrix_iget W' i j =
              (if ens_mask ! i \<and> ens_mask ! j then matrix_iget W i j else 0))"
proof -
  let ?W0 = "alloc_active W ens_mask ens_mask"
  have a: "alloc_activeW ies_data = Inr ?W0"
    using assms(1,2) by (simp add: alloc_activeW_def)
  obtain W' where W':
    "linalg_store_active_W ies_data ?W0 = Inr (ies_data\<lparr>data_W := Some W'\<rparr>)"
    "rows W' = length ens_mask" "columns W' = length ens_mask"
    "\<forall>r c. data W' r c =
        (if r < length ens_mask \<and> ens_mask ! r \<and> c < length ens_mask \<and> ens_mask ! c
         then data ?W0 (active_rank ens_mask r) (active_rank ens_mask c) else 0)"
    using store_active_W_entry[OF assms, of ?W0] by blast
  have "\<forall>i<length ens_mask. \<forall>j<length ens_mask.
          matrix_iget W' i j = (if ens_mask ! i \<and> ens_mask ! j then matrix_iget W i j else 0)"
    using W'(4) by (simp add: matrix_iget_def alloc_active_entry)
  then show ?thesis using a W'(1,2,3) by blast
qed

theorem active_slice_round_trip_witness:
  "\<exists>W0 W'. alloc_activeW example_mask_data = Inr W0
      \<and> linalg_store_active_W example_mask_data W0 =
          Inr (example_mask_data\<lparr>data_W := Some W'\<rparr>)
      \<and> matrix_iget W' 0 0 = 1 \<and> matrix_iget W' 0 2 = 3 \<and> matrix_iget W' 2 0 = 7
      \<and> matrix_iget W' 2 2 = 9 \<and> matrix_iget W' 0 1 = 0 \<and> matrix_iget W' 1 1 = 0
      \<and> matrix_iget W' 1 2 = 0 \<and> matrix_iget W' 2 1 = 0"
proof -
  have h: "data_W example_mask_data = Some example_W"
    "data_ens_mask example_mask_data = Some [True, False, True]"
    "rows example_W = length [True, False, True]"
    "columns example_W = length [True, False, True]"
    by (simp_all add: example_mask_data_def example_W_def data_alloc_def)
  obtain W0 W' where r:
    "alloc_activeW example_mask_data = Inr W0"
    "linalg_store_active_W example_mask_data W0 = Inr (example_mask_data\<lparr>data_W := Some W'\<rparr>)"
    "\<forall>i<length [True, False, True]. \<forall>j<length [True, False, True].
       matrix_iget W' i j =
         (if [True, False, True] ! i \<and> [True, False, True] ! j
          then matrix_iget example_W i j else 0)"
    using active_slice_round_trip[OF h] by blast
  have "matrix_iget W' 0 0 = 1" "matrix_iget W' 0 2 = 3" "matrix_iget W' 2 0 = 7"
    "matrix_iget W' 2 2 = 9" "matrix_iget W' 0 1 = 0" "matrix_iget W' 1 1 = 0"
    "matrix_iget W' 1 2 = 0" "matrix_iget W' 2 1 = 0"
    using r(3) by (simp_all add: matrix_iget_def example_W_def)
  then show ?thesis using r(1,2) by blast
qed

section \<open>The scaling of R in the subspace inversion\<close>

lemma nsc_square:
  assumes "2 \<le> (n::nat)"
  shows "(1 / sqrt (real n - 1)) * (1 / sqrt (real n - 1)) = 1 / (real n - 1)"
proof -
  have "0 \<le> real n - 1" using assms by simp
  then have "sqrt (real n - 1) * sqrt (real n - 1) = real n - 1" by simp
  then show ?thesis by simp
qed

text \<open>
  Claim C1, as amended. In mode \<^verbatim>\<open>SUBSPACE_EXACT_R\<close>, with an active ensemble of
  \<^verbatim>\<open>N \<ge> 2\<close> members (the columns of \<^verbatim>\<open>S\<close>), \<^verbatim>\<open>linalg_subspace_inversion\<close> scales the
  measurement-error covariance \<^verbatim>\<open>R\<close> by \<^verbatim>\<open>nsc * nsc = 1 / (N - 1)\<close>, not by its square,
  and hands the scaled matrix to \<^verbatim>\<open>enkf_linalg_lowrankCinv\<close>.
\<close>

theorem subspace_exact_r_scaling:
  assumes "2 \<le> columns S"
  shows "subspace_lowrank_call IES_INVERSION_SUBSPACE_EXACT_R E R S =
           Call_lowrankCinv S (matrix_scale R (1 / (real (columns S) - 1)))
       \<and> linalg_subspace_inversion K W0 IES_INVERSION_SUBSPACE_EXACT_R E R S H truncation
           ies_steplength =
         (case enkf_linalg_lowrankCinv K S (matrix_scale R (1 / (real (columns S) - 1)))
                 (matrix_alloc (rows S) (min (columns S) (rows S))) (\<lambda>i. 0) truncation of
            (X1, eig) \<Rightarrow>
              matrix_dgemm W0 S
                (enkf_linalg_genX3 (matrix_alloc (rows S) (columns S)) X1 H eig)
                True False ies_steplength (1 - ies_steplength))"
proof -
  have c: "subspace_lowrank_call IES_INVERSION_SUBSPACE_EXACT_R E R S =
           Call_lowrankCinv S (matrix_scale R (1 / (real (columns S) - 1)))"
    using nsc_square[OF assms]
    by (simp add: subspace_lowrank_call_def Let_def IES_INVERSION_SUBSPACE_EXACT_R_def
        IES_INVERSION_SUBSPACE_RE_def IES_INVERSION_SUBSPACE_EE_R_def matrix_alloc_copy_def)
  show ?thesis
    unfolding linalg_subspace_inversion_def c
    by (simp add: Let_def run_lowrank_def c split: prod.splits)
qed

text \<open>
  The amended claim at \<^verbatim>\<open>N = 3\<close>: the factor is \<^verbatim>\<open>1 / 2\<close>.
\<close>

theorem subspace_exact_r_scaling_witness:
  "subspace_lowrank_call IES_INVERSION_SUBSPACE_EXACT_R example_E3 example_R1 example_S3 =
     Call_lowrankCinv example_S3 (matrix_scale example_R1 (1 / 2))"
proof -
  have h: "2 \<le> columns example_S3" by (simp add: example_S3_def)
  have "real (columns example_S3) - 1 = 2" by (simp add: example_S3_def)
  then show ?thesis
    using subspace_exact_r_scaling[OF h, of example_E3 example_R1] by simp
qed

text \<open>
  Claim C1 as the spec states it fails at \<^verbatim>\<open>N = 3\<close>: the matrix handed to
  \<^verbatim>\<open>enkf_linalg_lowrankCinv\<close> is not \<^verbatim>\<open>R\<close> scaled by \<^verbatim>\<open>1 / (N - 1)^2 = 1 / 4\<close>.
\<close>

theorem subspace_exact_r_scaling_counterexample:
  "subspace_lowrank_call IES_INVERSION_SUBSPACE_EXACT_R example_E3 example_R1 example_S3 \<noteq>
     Call_lowrankCinv example_S3
       (matrix_scale example_R1 (1 / ((real (columns example_S3) - 1) * (real (columns example_S3) - 1))))"
proof
  assume a: "subspace_lowrank_call IES_INVERSION_SUBSPACE_EXACT_R example_E3 example_R1 example_S3 =
     Call_lowrankCinv example_S3
       (matrix_scale example_R1 (1 / ((real (columns example_S3) - 1) * (real (columns example_S3) - 1))))"
  have n: "real (columns example_S3) - 1 = 2" by (simp add: example_S3_def)
  have s: "(1 / sqrt 2) * (1 / sqrt 2) = (1 / 2 :: real)"
    using nsc_square[of 3] by simp
  have "subspace_lowrank_call IES_INVERSION_SUBSPACE_EXACT_R example_E3 example_R1 example_S3 =
     Call_lowrankCinv example_S3 (matrix_scale example_R1 (1 / 2))"
    using s
    by (simp add: subspace_lowrank_call_def Let_def IES_INVERSION_SUBSPACE_EXACT_R_def
        IES_INVERSION_SUBSPACE_RE_def IES_INVERSION_SUBSPACE_EE_R_def matrix_alloc_copy_def n)
  with a have "matrix_scale example_R1 (1 / 2) = matrix_scale example_R1 (1 / (2 * 2))"
    by (simp add: n)
  then have "data (matrix_scale example_R1 (1 / 2)) 0 0 = data (matrix_scale example_R1 (1 / (2 * 2))) 0 0"
    by simp
  then show False by (simp add: matrix_scale_def example_R1_def)
qed

section \<open>The dispatch table and the stateless initX\<close>

lemma data_update_ens_mask_fresh:
  "data_ens_mask ies_data = None \<Longrightarrow>
   data_update_ens_mask ies_data em =
     Inr (ies_data\<lparr>data_ens_mask := Some em,
                    data_W := Some (matrix_alloc (length em) (length em))\<rparr>)"
  by (simp add: data_update_ens_mask_def)

lemma linalg_store_active_W_returns:
  "data_W ies_data = Some W \<Longrightarrow> data_ens_mask ies_data = Some em \<Longrightarrow>
   \<exists>d'. linalg_store_active_W ies_data W0 = Inr d'"
  by (simp add: linalg_store_active_W_def Let_def)

lemma ies_initX_unfold:
  "ies_initX K A Y0 R E D X mode tr aa ies_data g k w =
     (case alloc_activeW ies_data of
        Inl e \<Rightarrow> Inl e
      | Inr W0 \<Rightarrow>
          (case linalg_store_active_W ies_data (initX_W0 K A Y0 R E D mode tr aa g W0) of
             Inl e \<Rightarrow> Inl e
           | Inr ies_data' \<Rightarrow>
               Inr (initX_X X (initX_W0 K A Y0 R E D mode tr aa g W0) (columns Y0), ies_data',
                    if w then Some (ies_costf W0 D (columns Y0)) else None)))"
  unfolding ies_initX_def initX_W0_def initX_H_def initX_S_def initX_Y_def initX_X_def
    Let_def matrix_alloc_copy_def
  by (cases A) (simp_all split: sum.splits)

lemma ies_initX_returns:
  assumes "data_W ies_data = Some W" "data_ens_mask ies_data = Some em"
  shows "\<exists>r. ies_initX K A Y0 R E D X mode tr aa ies_data g k w = Inr r"
proof -
  have a: "alloc_activeW ies_data = Inr (alloc_active W em em)"
    using assms by (simp add: alloc_activeW_def)
  obtain d' where
    "linalg_store_active_W ies_data (initX_W0 K A Y0 R E D mode tr aa g (alloc_active W em em))
       = Inr d'"
    using linalg_store_active_W_returns[OF assms] by blast
  then show ?thesis
    by (simp add: ies_initX_unfold a)
qed

lemma initX_returns:
  "\<exists>X'. initX K default_config ies_config Y0 R E D X = Inr X'"
proof -
  let ?d = "(update_obs_mask (data_alloc default_config) (bool_vector_alloc (rows Y0) True))
      \<lparr>data_ens_mask := Some (bool_vector_alloc (columns Y0) True),
       data_W := Some (matrix_alloc (length (bool_vector_alloc (columns Y0) True))
                         (length (bool_vector_alloc (columns Y0) True)))\<rparr>"
  have u: "data_update_ens_mask
             (update_obs_mask (data_alloc default_config) (bool_vector_alloc (rows Y0) True))
             (bool_vector_alloc (columns Y0) True) = Inr ?d"
    by (rule data_update_ens_mask_fresh) (simp add: update_obs_mask_def data_alloc_def)
  have w: "data_allocateW ?d = ?d"
    by (simp add: data_allocateW_def)
  have "data_W ?d = Some (matrix_alloc (length (bool_vector_alloc (columns Y0) True))
                         (length (bool_vector_alloc (columns Y0) True)))"
    and "data_ens_mask ?d = Some (bool_vector_alloc (columns Y0) True)"
    by simp_all
  then obtain r where
    "ies_initX K None Y0 R E D X (get_inversion ies_config) (get_truncation ies_config)
       False ?d 1 1 False = Inr r"
    using ies_initX_returns by blast
  then show ?thesis
    unfolding initX_def Let_def u sum.case w by (cases r) simp
qed

text \<open>
  Claim C2, as amended. The dispatch table named \<^verbatim>\<open>"IES_ENKF"\<close> provides no \<^verbatim>\<open>initX\<close>
  operation: its \<^verbatim>\<open>initX\<close> slot is \<^verbatim>\<open>NULL\<close>, as is \<^verbatim>\<open>complete_update\<close>, and no slot of the
  table refers to the stateless \<^verbatim>\<open>ies::initX\<close>, so that function is not reachable
  through the table. The other slots hold \<^verbatim>\<open>updateA\<close>, \<^verbatim>\<open>init_update\<close>, \<^verbatim>\<open>data_free\<close>,
  \<^verbatim>\<open>data_alloc\<close>, the setters and getters, \<^verbatim>\<open>get_options\<close> and \<^verbatim>\<open>has_var\<close>.
\<close>

theorem dispatch_table_initX_slot:
  "table_name IES_ENKF = ''IES_ENKF''
   \<and> table_initX IES_ENKF = None
   \<and> table_complete_update IES_ENKF = None
   \<and> Some Fn_initX \<notin> set (table_slots IES_ENKF)
   \<and> table_slots IES_ENKF =
       [Some Fn_updateA, None, Some Fn_init_update, None, Some Fn_data_free,
        Some Fn_data_alloc, Some Fn_set_int, Some Fn_set_double, Some Fn_set_bool,
        Some Fn_set_string, Some Fn_get_options, Some Fn_has_var, Some Fn_get_int,
        Some Fn_get_double, Some Fn_get_bool, Some Fn_get_ptr]"
  by (simp add: IES_ENKF_def table_slots_def)

text \<open>
  Claim C2 as the spec states it fails: the \<^verbatim>\<open>initX\<close> slot of the table does not hold
  the stateless \<^verbatim>\<open>initX\<close>.
\<close>

theorem dispatch_table_initX_counterexample:
  "table_initX IES_ENKF \<noteq> Some Fn_initX"
  by (simp add: IES_ENKF_def)

section \<open>The configuration keys\<close>

lemma key_distinct:
  "ENKF_SUBSPACE_DIMENSION_KEY \<noteq> ITER_KEY"
  "ENKF_TRUNCATION_KEY \<noteq> ENKF_SUBSPACE_DIMENSION_KEY"
  "ENKF_SUBSPACE_DIMENSION_KEY \<noteq> ENKF_TRUNCATION_KEY"
  "IES_DEBUG_KEY \<noteq> IES_AAPROJECTION_KEY"
  by (simp_all add: ENKF_SUBSPACE_DIMENSION_KEY_def ITER_KEY_def ENKF_TRUNCATION_KEY_def
      IES_DEBUG_KEY_def IES_AAPROJECTION_KEY_def)

text \<open>
  Claim C7. The truncation is a tagged variant. Setting \<^verbatim>\<open>ENKF_SUBSPACE_DIMENSION\<close> to an
  integer \<^verbatim>\<open>k\<close> succeeds when \<^verbatim>\<open>k \<ge> 1\<close>, and whenever it succeeds
  \<^verbatim>\<open>get_int(ENKF_SUBSPACE_DIMENSION)\<close> returns \<^verbatim>\<open>k\<close> and \<^verbatim>\<open>get_double(ENKF_TRUNCATION)\<close>
  returns the sentinel \<^verbatim>\<open>-1\<close>. Symmetrically, after \<^verbatim>\<open>ENKF_TRUNCATION\<close> has been set to a
  fraction \<^verbatim>\<open>f\<close>, and in any state that stores a fraction,
  \<^verbatim>\<open>get_int(ENKF_SUBSPACE_DIMENSION)\<close> returns \<^verbatim>\<open>-1\<close>.
\<close>

theorem truncation_tagged_variant:
  "(1 \<le> k \<longrightarrow> (\<exists>d'. set_int module_data ENKF_SUBSPACE_DIMENSION_KEY k = Inr (True, d')))
   \<and> (\<forall>r d'. set_int module_data ENKF_SUBSPACE_DIMENSION_KEY k = Inr (r, d') \<longrightarrow>
         get_int d' ENKF_SUBSPACE_DIMENSION_KEY = k
         \<and> get_double d' ENKF_TRUNCATION_KEY = - 1)
   \<and> (\<forall>r d'. set_double module_data ENKF_TRUNCATION_KEY f = Inr (r, d') \<longrightarrow>
         get_double d' ENKF_TRUNCATION_KEY = f
         \<and> get_int d' ENKF_SUBSPACE_DIMENSION_KEY = - 1)
   \<and> (get_truncation (data_get_config module_data) = Truncation_double f \<longrightarrow>
         get_int module_data ENKF_SUBSPACE_DIMENSION_KEY = - 1)"
proof (intro conjI allI impI)
  assume "1 \<le> k"
  then show "\<exists>d'. set_int module_data ENKF_SUBSPACE_DIMENSION_KEY k = Inr (True, d')"
    by (simp add: set_int_def set_subspace_dimension_def)
next
  fix r d'
  assume a: "set_int module_data ENKF_SUBSPACE_DIMENSION_KEY k = Inr (r, d')"
  then have d': "d' = module_data\<lparr>data_config :=
      (data_config module_data)\<lparr>cfg_truncation := Truncation_int k\<rparr>\<rparr>"
    by (auto simp: set_int_def set_subspace_dimension_def data_get_config_def
        split: if_splits)
  show "get_int d' ENKF_SUBSPACE_DIMENSION_KEY = k"
    by (simp add: d' get_int_def key_distinct data_get_config_def get_truncation_def)
  show "get_double d' ENKF_TRUNCATION_KEY = - 1"
    by (simp add: d' get_double_def data_get_config_def get_truncation_def)
next
  fix r d'
  assume a: "set_double module_data ENKF_TRUNCATION_KEY f = Inr (r, d')"
  then have d': "d' = module_data\<lparr>data_config :=
      (data_config module_data)\<lparr>cfg_truncation := Truncation_double f\<rparr>\<rparr>"
    by (auto simp: set_double_def set_truncation_def data_get_config_def
        split: if_splits)
  show "get_double d' ENKF_TRUNCATION_KEY = f"
    by (simp add: d' get_double_def data_get_config_def get_truncation_def)
  show "get_int d' ENKF_SUBSPACE_DIMENSION_KEY = - 1"
    by (simp add: d' get_int_def key_distinct data_get_config_def get_truncation_def)
next
  assume "get_truncation (data_get_config module_data) = Truncation_double f"
  then show "get_int module_data ENKF_SUBSPACE_DIMENSION_KEY = - 1"
    by (simp add: get_int_def key_distinct)
qed

text \<open>
  Scenario S6: \<^verbatim>\<open>ENKF_TRUNCATION\<close> is set to 0.97, then \<^verbatim>\<open>ENKF_SUBSPACE_DIMENSION\<close> to 5.
\<close>

theorem truncation_tagged_variant_witness:
  "set_double example_data ENKF_TRUNCATION_KEY (97 / 100) = Inr (True, example_data_fraction)
   \<and> get_double example_data_fraction ENKF_TRUNCATION_KEY = 97 / 100
   \<and> get_int example_data_fraction ENKF_SUBSPACE_DIMENSION_KEY = - 1
   \<and> set_int example_data_fraction ENKF_SUBSPACE_DIMENSION_KEY 5 =
       Inr (True, example_data_dimension)
   \<and> get_int example_data_dimension ENKF_SUBSPACE_DIMENSION_KEY = 5
   \<and> get_double example_data_dimension ENKF_TRUNCATION_KEY = - 1"
proof -
  have s1: "set_double example_data ENKF_TRUNCATION_KEY (97 / 100) =
      Inr (True, example_data_fraction)"
    by (simp add: set_double_def set_truncation_def example_data_fraction_def
        example_data_def example_config_def data_alloc_def data_get_config_def)
  have s2: "set_int example_data_fraction ENKF_SUBSPACE_DIMENSION_KEY 5 =
      Inr (True, example_data_dimension)"
    by (simp add: set_int_def set_subspace_dimension_def example_data_fraction_def
        example_data_dimension_def example_data_def example_config_def data_alloc_def
        data_get_config_def)
  have t: "get_truncation (data_get_config example_data_fraction) = Truncation_double (97 / 100)"
    by (simp add: example_data_fraction_def get_truncation_def data_get_config_def)
  show ?thesis
    using s1 s2 t
      truncation_tagged_variant[of 5 example_data_fraction "97 / 100"]
      truncation_tagged_variant[of 5 example_data "97 / 100"]
    by auto
qed

text \<open>
  Claim C10. For every state, \<^verbatim>\<open>get_bool\<close> returns false for every variable name other
  than \<^verbatim>\<open>IES_AAPROJECTION\<close>; it has no error result.
\<close>

theorem get_bool_other_names:
  "var_name \<noteq> IES_AAPROJECTION_KEY \<Longrightarrow> get_bool module_data var_name = False"
  by (simp add: get_bool_def)

text \<open>
  The recognised key \<^verbatim>\<open>IES_DEBUG\<close> and a name unknown to the module, in a state whose
  projection flag is set.
\<close>

theorem get_bool_other_names_witness:
  "IES_DEBUG_KEY \<noteq> IES_AAPROJECTION_KEY \<and> has_var IES_DEBUG_KEY
   \<and> get_bool (example_data\<lparr>data_config := example_config\<lparr>cfg_aaprojection := True\<rparr>\<rparr>)
        IES_DEBUG_KEY = False
   \<and> ''NO_SUCH_KEY'' \<noteq> IES_AAPROJECTION_KEY \<and> \<not> has_var ''NO_SUCH_KEY''
   \<and> get_bool (example_data\<lparr>data_config := example_config\<lparr>cfg_aaprojection := True\<rparr>\<rparr>)
        ''NO_SUCH_KEY'' = False"
proof -
  have h1: "IES_DEBUG_KEY \<noteq> IES_AAPROJECTION_KEY"
    by (simp add: IES_DEBUG_KEY_def IES_AAPROJECTION_KEY_def)
  have h2: "''NO_SUCH_KEY'' \<noteq> IES_AAPROJECTION_KEY"
    by (simp add: IES_AAPROJECTION_KEY_def)
  have v1: "has_var IES_DEBUG_KEY"
    by (simp add: has_var_def)
  have v2: "\<not> has_var ''NO_SUCH_KEY''"
    by (simp add: has_var_def ITER_KEY_def IES_MAX_STEPLENGTH_KEY_def
        IES_MIN_STEPLENGTH_KEY_def IES_DEC_STEPLENGTH_KEY_def IES_INVERSION_KEY_def
        IES_LOGFILE_KEY_def IES_DEBUG_KEY_def IES_AAPROJECTION_KEY_def
        ENKF_TRUNCATION_KEY_def ENKF_SUBSPACE_DIMENSION_KEY_def)
  show ?thesis
    using h1 h2 v1 v2 get_bool_other_names[OF h1] get_bool_other_names[OF h2]
    by simp
qed

section \<open>The exact inversion\<close>

lemma exact_StS_spec:
  "exact_StS S = mat_add (mat_identity (columns S)) (mat_mult (mat_transpose S) S)"
  by (simp add: exact_StS_def Let_def matrix_alloc_def matrix_diag_set_scalar_def
      matrix_dgemm_def mat_add_def mat_identity_def mat_mult_def mat_transpose_def
      fun_eq_iff)

lemma exact_StS_shape: "rows (exact_StS S) = columns S" "columns (exact_StS S) = columns S"
  by (simp_all add: exact_StS_def Let_def matrix_alloc_def matrix_diag_set_scalar_def
      matrix_dgemm_def)


lemma exact_invert_eig_fold:
  "fold (\<lambda>i (eig, ZtStH).
             (let eig = eig(i := 1 / eig i)
              in (eig, matrix_scale_row ZtStH i (eig i))))
          [0..<n] (eig, M) =
     ((\<lambda>i. if i < n then 1 / eig i else eig i),
      M\<lparr>data := (\<lambda>i j. if i < n then data M i j * (1 / eig i) else data M i j)\<rparr>)"
proof (induction n)
  case 0
  then show ?case by simp
next
  case (Suc n)
  then show ?case
    by (auto simp: Let_def matrix_scale_row_def fun_eq_iff less_Suc_eq)
qed

lemma exact_invert_eig_eq:
  "exact_invert_eig n eig M =
     ((\<lambda>i. if i < n then 1 / eig i else eig i),
      M\<lparr>data := (\<lambda>i j. if i < n then data M i j * (1 / eig i) else data M i j)\<rparr>)"
  unfolding exact_invert_eig_def by (rule exact_invert_eig_fold)

lemma sum_diag_collapse:
  fixes x :: "nat \<Rightarrow> real"
  assumes "k < n"
  shows "(\<Sum>l<n. (if k = l then c else 0) * x l) = c * x k"
proof -
  have "(\<Sum>l<n. (if k = l then c else 0) * x l) = (\<Sum>l<n. if k = l then c * x l else 0)"
    by (rule sum.cong) simp_all
  also have "\<dots> = c * x k"
    using assms by (simp add: sum.delta')
  finally show ?thesis .
qed

lemma linalg_exact_inversion_formula:
  "linalg_exact_inversion K W0 ies_inversion S H ies_steplength =
     exact_inversion_spec K W0 S H ies_steplength"
proof -
  obtain sv u vt where k: "kernel_dgesvd K DGESVD_ALL DGESVD_NONE (exact_StS S) = (sv, u, vt)"
    by (rule prod_cases3)
  have k': "kernel_dgesvd K DGESVD_ALL DGESVD_NONE
              (mat_add (mat_identity (columns S)) (mat_mult (mat_transpose S) S)) = (sv, u, vt)"
    using k by (simp add: exact_StS_spec)
  have inner: "(\<Sum>k<columns S. u i k *
                  (\<Sum>l<columns S. u l k * (\<Sum>m<rows S. data S m l * data H m j)) / sv k) =
               (\<Sum>k<columns S. u i k *
                  (\<Sum>l<columns S. (if k = l then 1 / sv k else 0) *
                     (\<Sum>m<columns S. u m l * (\<Sum>p<rows S. data S p m * data H p j))))" for i j
    by (rule sum.cong) (simp_all add: sum_diag_collapse)
  show ?thesis
    unfolding linalg_exact_inversion_def exact_inversion_spec_def Let_def k k'
      matrix_dgesvd_U_def exact_invert_eig_eq exact_StS_shape prod.case
    by (rule matrix.equality)
      (simp_all add: matrix_dgemm_def matrix_alloc_def mat_add_def mat_smult_def mat_mult_def
        mat_diag_def mat_transpose_def fun_eq_iff inner)
qed

text \<open>
  Claim C5. In mode \<^verbatim>\<open>EXACT\<close>, for every \<^verbatim>\<open>W0\<close>, \<^verbatim>\<open>S\<close>, \<^verbatim>\<open>H\<close> and step length,
  \<^verbatim>\<open>linalg_exact_inversion\<close> computes what the spec describes: it forms
  \<^verbatim>\<open>StS = I + S'S\<close>, takes the decomposition \<^verbatim>\<open>(Lambda, Z)\<close> the kernel returns for it,
  scales row \<^verbatim>\<open>i\<close> of \<^verbatim>\<open>Z'S'H\<close> by \<^verbatim>\<open>1 / Lambda_ii\<close>, and updates \<^verbatim>\<open>W0\<close> to
  \<^verbatim>\<open>(1 - gamma) W0 + gamma Z (Lambda^-1 Z'S'H)\<close>. The sequence of \<^verbatim>\<open>matrix_dgemm\<close> calls
  and the scaling loop of the source equal the spec's formula, as matrices.
\<close>

theorem exact_inversion_refines_spec:
  "linalg_exact_inversion K W0 ies_inversion S H ies_steplength =
     exact_inversion_spec K W0 S H ies_steplength"
  by (rule linalg_exact_inversion_formula)

























section \<open>The transform matrix without innovation\<close>

lemma alloc_active_row_zero:
  assumes "\<forall>j<length cm. data full iobs j = 0" "\<forall>r c. data a r c = 0" "n \<le> length cm"
  shows "\<forall>r c. data (snd (fold (\<lambda>iens (column, active).
             if bool_vector_iget cm iens
             then (column + 1,
                   matrix_iset active row column (matrix_iget full iobs iens))
             else (column, active)) [0..<n] (0, a))) r c = 0"
  using assms(3)
proof (induction n)
  case 0
  then show ?case using assms(2) by simp
next
  case (Suc n)
  then have "data full iobs n = 0" using assms(1) by simp
  with Suc show ?case
    by (simp add: split_beta matrix_iset_def matrix_iget_def)
qed

lemma alloc_active_zero:
  assumes "\<forall>i<length rm. \<forall>j<length cm. data full i j = 0"
  shows "data (alloc_active full rm cm) r c = 0"
proof -
  have inv: "\<forall>r c. data (snd (fold (\<lambda>iobs (row, active).
                      if bool_vector_iget rm iobs
                      then (row + 1,
                            snd (alloc_active_row full cm iobs row active))
                      else (row, active)) [0..<n] (0, a))) r c = 0"
    if "n \<le> length rm" "\<forall>r c. data a r c = 0" for n a
    using that(1)
  proof (induction n)
    case 0
    then show ?case using that(2) by simp
  next
    case (Suc n)
    then have "\<forall>j<length cm. data full n j = 0" using assms by simp
    with Suc show ?case
      using alloc_active_row_zero[of cm full n _ "length cm"]
      by (simp add: split_beta alloc_active_row_def bool_vector_size_def)
  qed
  show ?thesis
    unfolding alloc_active_def Let_def bool_vector_size_def
    using inv[of "length rm" "matrix_alloc (bool_vector_count_equal rm True)
        (bool_vector_count_equal cm True)"]
    by (simp add: matrix_alloc_def)
qed

lemma iadd_diag_fold:
  "fold (\<lambda>i X. matrix_iadd X i i 1) [0..<n] M =
     M\<lparr>data := (\<lambda>i j. data M i j + (if i = j \<and> i < n then 1 else 0))\<rparr>"
proof (induction n)
  case 0
  then show ?case by simp
next
  case (Suc n)
  then show ?case
    by (auto simp: matrix_iadd_def matrix_iset_def matrix_iget_def fun_eq_iff less_Suc_eq)
qed

lemma initX_X_data:
  "data (initX_X X W0 n) i j =
     data W0 i j * (1 / sqrt (real n - 1)) + (if i = j \<and> i < n then 1 else 0)"
  "rows (initX_X X W0 n) = rows X" "columns (initX_X X W0 n) = columns X"
  by (simp_all add: initX_X_def iadd_diag_fold matrix_scale_def matrix_assign_def)

lemma initX_S_shape:
  "rows (initX_S K A Y0 aa W0) = rows Y0" "columns (initX_S K A Y0 aa W0) = columns Y0"
  by (simp_all add: initX_S_def linalg_solve_S_def Let_def matrix_transpose_def
      matrix_alloc_def)

lemma initX_H_zero:
  assumes "\<forall>r c. data W0 r c = 0"
  shows "data (initX_H K A Y0 aa D W0) i j = data D i j"
  using assms by (simp add: initX_H_def matrix_dgemm_def matrix_assign_def)

lemma subspace_X1_rows:
  "rows (fst (run_lowrank K call (matrix_alloc r c) eig tr)) = r"
  by (cases call)
    (simp_all add: run_lowrank_def enkf_linalg_lowrankE_def enkf_linalg_lowrankCinv_def
      matrix_alloc_def split: prod.splits)

lemma linalg_subspace_inversion_zero:
  assumes "\<forall>r c. data W0 r c = 0" "\<forall>l<rows S. data H l j = 0"
  shows "data (linalg_subspace_inversion K W0 mode E R S H tr g) i j = 0"
proof -
  obtain X1 eig where x: "run_lowrank K (subspace_lowrank_call mode E R S)
      (matrix_alloc (rows S) (min (columns S) (rows S))) (\<lambda>i. 0) tr = (X1, eig)"
    by (rule prod.exhaust)
  have r: "rows X1 = rows S"
    using subspace_X1_rows[of K "subspace_lowrank_call mode E R S" "rows S"
        "min (columns S) (rows S)" "\<lambda>i. 0" tr] x by simp
  have "(\<Sum>l<rows X1. data X1 l k * data H l j) = 0" for k
    using assms(2) r by simp
  then show ?thesis
    using assms(1)
    unfolding linalg_subspace_inversion_def Let_def x prod.case
    by (simp add: matrix_dgemm_def enkf_linalg_genX3_def)
qed

lemma linalg_exact_inversion_zero:
  assumes "\<forall>r c. data W0 r c = 0" "\<forall>l<rows S. data H l j = 0"
  shows "data (linalg_exact_inversion K W0 mode S H g) i j = 0"
proof -
  have "(\<Sum>m<rows S. data S m l * data H m j) = 0" for l
    using assms(2) by simp
  then show ?thesis
    using assms(1)
    by (simp add: linalg_exact_inversion_formula exact_inversion_spec_def Let_def mat_add_def
        mat_smult_def mat_mult_def mat_diag_def mat_transpose_def split: prod.splits)
qed

lemma initX_W0_zero:
  assumes "\<forall>r c. data W0 r c = 0" "\<forall>l<rows Y0. data D l j = 0"
  shows "data (initX_W0 K A Y0 R E D mode tr aa g W0) i j = 0"
proof -
  have "\<forall>l<rows (initX_S K A Y0 aa W0). data (initX_H K A Y0 aa D W0) l j = 0"
    using assms by (simp add: initX_S_shape initX_H_zero)
  then show ?thesis
    unfolding initX_W0_def
    using assms(1) linalg_subspace_inversion_zero linalg_exact_inversion_zero by simp
qed

text \<open>
  Claim C3. For every inversion mode and step length (and every iteration number,
  projection setting and kernel), if the input \<^verbatim>\<open>D\<close> is the zero matrix and the stored
  \<^verbatim>\<open>W\<close> is zero, then \<^verbatim>\<open>ies_initX__\<close> returns, and the \<^verbatim>\<open>X\<close> it computes is the
  \<^verbatim>\<open>N\<close> by \<^verbatim>\<open>N\<close> identity. The shapes are those of a call by \<^verbatim>\<open>updateA\<close>: \<^verbatim>\<open>W\<close> has the
  size of the mask, the mask has \<^verbatim>\<open>N\<close> active members, \<^verbatim>\<open>D\<close> has the shape of \<^verbatim>\<open>Y0\<close> and
  \<^verbatim>\<open>X\<close> is \<^verbatim>\<open>N\<close> by \<^verbatim>\<open>N\<close>; and \<^verbatim>\<open>N \<ge> 2\<close>, since the scaling \<^verbatim>\<open>1 / sqrt(N - 1)\<close> has no
  value at \<^verbatim>\<open>N = 1\<close>.
\<close>

theorem identity_on_no_innovation:
  assumes "data_W ies_data = Some W" and "data_ens_mask ies_data = Some ens_mask"
    and "rows W = length ens_mask" and "columns W = length ens_mask"
    and "\<forall>i<length ens_mask. \<forall>j<length ens_mask. matrix_iget W i j = 0"
    and "bool_vector_count_equal ens_mask True = columns Y0"
    and "2 \<le> columns Y0"
    and "rows D = rows Y0" and "columns D = columns Y0"
    and "\<forall>i<rows D. \<forall>j<columns D. matrix_iget D i j = 0"
    and "rows X = columns Y0" and "columns X = columns Y0"
  shows "\<exists>X' ies_data' costf.
           ies_initX K A Y0 R E D X ies_inversion truncation use_aa_projection ies_data
             ies_steplength iteration_nr want_costf = Inr (X', ies_data', costf)
           \<and> rows X' = columns Y0 \<and> columns X' = columns Y0
           \<and> (\<forall>i<columns Y0. \<forall>j<columns Y0.
                 matrix_iget X' i j = (if i = j then 1 else 0))"
proof -
  let ?W0 = "alloc_active W ens_mask ens_mask"
  let ?W1 = "initX_W0 K A Y0 R E D ies_inversion truncation use_aa_projection ies_steplength ?W0"
  let ?X' = "initX_X X ?W1 (columns Y0)"
  have a: "alloc_activeW ies_data = Inr ?W0"
    using assms(1,2) by (simp add: alloc_activeW_def)
  have z: "\<forall>r c. data ?W0 r c = 0"
    using assms(3,4,5) by (simp add: alloc_active_zero matrix_iget_def)
  obtain d' where s: "linalg_store_active_W ies_data ?W1 = Inr d'"
    using linalg_store_active_W_returns[OF assms(1,2)] by blast
  have r: "ies_initX K A Y0 R E D X ies_inversion truncation use_aa_projection ies_data
             ies_steplength iteration_nr want_costf =
           Inr (?X', d', if want_costf then Some (ies_costf ?W0 D (columns Y0)) else None)"
    by (simp add: ies_initX_unfold a s)
  have w: "data ?W1 i j = 0" if "j < columns Y0" for i j
  proof -
    have "\<forall>l<rows Y0. data D l j = 0"
      using assms(8,9,10) that by (simp add: matrix_iget_def)
    then show ?thesis using z by (rule initX_W0_zero[rotated])
  qed
  have "\<forall>i<columns Y0. \<forall>j<columns Y0. matrix_iget ?X' i j = (if i = j then 1 else 0)"
    by (simp add: matrix_iget_def initX_X_data w)
  then show ?thesis
    using r assms(11,12) by (simp add: initX_X_data)
qed

text \<open>
  The claim at two realisations and one observation, in mode \<^verbatim>\<open>SUBSPACE_EXACT_R\<close> with
  step length 0.6.
\<close>

theorem identity_on_no_innovation_witness:
  "\<exists>X' ies_data' costf.
     ies_initX example_kernel None example_Y0 example_R1 (matrix_alloc 1 2) (matrix_alloc 1 2)
       (matrix_alloc 2 2) IES_INVERSION_SUBSPACE_EXACT_R (Truncation_double (97 / 100)) False
       example_zero_data (6 / 10) 1 True = Inr (X', ies_data', costf)
     \<and> matrix_iget X' 0 0 = 1 \<and> matrix_iget X' 0 1 = 0
     \<and> matrix_iget X' 1 0 = 0 \<and> matrix_iget X' 1 1 = 1"
proof -
  have h: "data_W example_zero_data = Some (matrix_alloc 2 2)"
    "data_ens_mask example_zero_data = Some [True, True]"
    "rows (matrix_alloc 2 2) = length [True, True]"
    "columns (matrix_alloc 2 2) = length [True, True]"
    "\<forall>i<length [True, True]. \<forall>j<length [True, True]. matrix_iget (matrix_alloc 2 2) i j = 0"
    "bool_vector_count_equal [True, True] True = columns example_Y0"
    "2 \<le> columns example_Y0"
    "rows (matrix_alloc 1 2) = rows example_Y0"
    "columns (matrix_alloc 1 2) = columns example_Y0"
    "\<forall>i<rows (matrix_alloc 1 2). \<forall>j<columns (matrix_alloc 1 2).
       matrix_iget (matrix_alloc 1 2) i j = 0"
    "rows (matrix_alloc 2 2) = columns example_Y0"
    "columns (matrix_alloc 2 2) = columns example_Y0"
    by (simp_all add: example_zero_data_def data_alloc_def matrix_alloc_def matrix_iget_def
        bool_vector_count_equal_def example_Y0_def)
  have c: "columns example_Y0 = 2" by (simp add: example_Y0_def)
  obtain X' d' costf where r:
    "ies_initX example_kernel None example_Y0 example_R1 (matrix_alloc 1 2) (matrix_alloc 1 2)
       (matrix_alloc 2 2) IES_INVERSION_SUBSPACE_EXACT_R (Truncation_double (97 / 100)) False
       example_zero_data (6 / 10) 1 True = Inr (X', d', costf)"
    "\<forall>i<columns example_Y0. \<forall>j<columns example_Y0.
       matrix_iget X' i j = (if i = j then 1 else 0)"
    using identity_on_no_innovation[OF h, of example_kernel None example_R1 "matrix_alloc 1 2"
        IES_INVERSION_SUBSPACE_EXACT_R "Truncation_double (97 / 100)" False "6 / 10" 1 True]
    by blast
  have "matrix_iget X' 0 0 = 1" "matrix_iget X' 0 1 = 0"
    "matrix_iget X' 1 0 = 0" "matrix_iget X' 1 1 = 1"
    using r(2) by (simp_all add: c)
  then show ?thesis using r(1) by blast
qed

section \<open>The step-length schedule\<close>

lemma steplength_antimono:
  assumes "cfg_min_steplength cfg \<le> cfg_max_steplength cfg" "1 < cfg_dec_steplength cfg"
    "iter1 < iter2"
  shows "calculate_steplength cfg iter2 \<le> calculate_steplength cfg iter1"
proof -
  let ?d = "cfg_dec_steplength cfg - 1"
  have d: "0 < ?d" using assms(2) by simp
  have "- (real_of_int iter2 - 1) \<le> - (real_of_int iter1 - 1)"
    using assms(3) by simp
  then have "- (real_of_int iter2 - 1) / ?d \<le> - (real_of_int iter1 - 1) / ?d"
    using d by (simp add: divide_right_mono)
  then have "2 powr (- (real_of_int iter2 - 1) / ?d) \<le> 2 powr (- (real_of_int iter1 - 1) / ?d)"
    by (intro powr_mono) simp_all
  then have "(cfg_max_steplength cfg - cfg_min_steplength cfg) * 2 powr (- (real_of_int iter2 - 1) / ?d)
      \<le> (cfg_max_steplength cfg - cfg_min_steplength cfg) * 2 powr (- (real_of_int iter1 - 1) / ?d)"
    using assms(1) by (intro mult_left_mono) simp_all
  then show ?thesis by (simp add: calculate_steplength_def)
qed

lemma steplength_decay_limit:
  assumes "1 < (d::real)"
  shows "(\<lambda>n. 2 powr (- (real_of_int (int n) - 1) / (d - 1))) \<longlonglongrightarrow> 0"
proof -
  let ?c = "2 powr (- 1 / (d - 1))"
  have c0: "0 \<le> ?c" by simp
  have "- 1 / (d - 1) < 0" using assms by simp
  then have c1: "?c < 1"
    by (simp add: powr_less_one)
  have pw: "?c ^ n = 2 powr (- real n / (d - 1))" for n
    by (simp add: powr_powr flip: powr_realpow)
  have eq: "2 powr (- (real_of_int (int n) - 1) / (d - 1)) = 2 powr (1 / (d - 1)) * ?c ^ n" for n
  proof -
    have a: "- (real_of_int (int n) - 1) / (d - 1) = 1 / (d - 1) + - real n / (d - 1)"
      by (simp add: diff_divide_distrib add_divide_distrib)
    have "2 powr (- (real_of_int (int n) - 1) / (d - 1)) =
          2 powr (1 / (d - 1) + - real n / (d - 1))"
      by (simp only: a)
    also have "\<dots> = 2 powr (1 / (d - 1)) * 2 powr (- real n / (d - 1))"
      by (rule powr_add)
    also have "\<dots> = 2 powr (1 / (d - 1)) * ?c ^ n"
      by (simp only: pw)
    finally show ?thesis .
  qed
  have "(\<lambda>n. ?c ^ n) \<longlonglongrightarrow> 0"
    using c0 c1 by (rule LIMSEQ_realpow_zero)
  then have "(\<lambda>n. 2 powr (1 / (d - 1)) * ?c ^ n) \<longlonglongrightarrow> 2 powr (1 / (d - 1)) * 0"
    by (intro tendsto_mult tendsto_const)
  then have "(\<lambda>n. 2 powr (1 / (d - 1)) * ?c ^ n) \<longlonglongrightarrow> 0"
    by (simp only: mult_zero_right)
  then show ?thesis by (simp only: eq)
qed

lemma steplength_limit:
  assumes "1 < cfg_dec_steplength cfg"
  shows "(\<lambda>n. calculate_steplength cfg (int n)) \<longlonglongrightarrow> cfg_min_steplength cfg"
proof -
  have "(\<lambda>n. cfg_min_steplength cfg +
           (cfg_max_steplength cfg - cfg_min_steplength cfg) *
             2 powr (- (real_of_int (int n) - 1) / (cfg_dec_steplength cfg - 1)))
        \<longlonglongrightarrow> cfg_min_steplength cfg + (cfg_max_steplength cfg - cfg_min_steplength cfg) * 0"
    by (intro tendsto_add tendsto_mult tendsto_const steplength_decay_limit[OF assms])
  then show ?thesis by (simp add: calculate_steplength_def)
qed

text \<open>
  Claim C6. For every configuration with \<^verbatim>\<open>gamma_max \<ge> gamma_min > 0\<close> and \<^verbatim>\<open>decay > 1\<close>,
  \<^verbatim>\<open>calculate_steplength(iter)\<close> equals
  \<^verbatim>\<open>gamma_min + (gamma_max - gamma_min) * 2^(-(iter - 1) / (decay - 1))\<close>, it is non-increasing in
  \<^verbatim>\<open>iter\<close>, and it tends to \<^verbatim>\<open>gamma_min\<close> as \<^verbatim>\<open>iter\<close> grows without bound.
\<close>

theorem steplength_schedule:
  assumes "0 < cfg_min_steplength cfg"
    and "cfg_min_steplength cfg \<le> cfg_max_steplength cfg"
    and "1 < cfg_dec_steplength cfg"
  shows "calculate_steplength cfg iter =
           cfg_min_steplength cfg +
           (cfg_max_steplength cfg - cfg_min_steplength cfg) *
             2 powr (- (real_of_int iter - 1) / (cfg_dec_steplength cfg - 1))
       \<and> (\<forall>iter1 iter2. iter1 < iter2 \<longrightarrow>
             calculate_steplength cfg iter2 \<le> calculate_steplength cfg iter1)
       \<and> (\<lambda>n. calculate_steplength cfg (int n)) \<longlonglongrightarrow> cfg_min_steplength cfg"
  using steplength_antimono[OF assms(2,3)] steplength_limit[OF assms(3)]
  by (simp add: calculate_steplength_def)

text \<open>
  Scenario S5: \<^verbatim>\<open>gamma_max = 0.6\<close>, \<^verbatim>\<open>gamma_min = 0.3\<close>, \<^verbatim>\<open>decay = 2.5\<close>; the first step
  length is 0.6, the second is not larger, and the limit is 0.3.
\<close>

theorem steplength_schedule_witness:
  "calculate_steplength example_config 1 = 6 / 10
   \<and> calculate_steplength example_config 2 \<le> calculate_steplength example_config 1
   \<and> (\<lambda>n. calculate_steplength example_config (int n)) \<longlonglongrightarrow> 3 / 10"
proof -
  have h: "0 < cfg_min_steplength example_config"
    "cfg_min_steplength example_config \<le> cfg_max_steplength example_config"
    "1 < cfg_dec_steplength example_config"
    by (simp_all add: example_config_def)
  have m: "cfg_min_steplength example_config = 3 / 10"
    "cfg_max_steplength example_config = 6 / 10"
    by (simp_all add: example_config_def)
  have "(1::int) < 2" by simp
  then show ?thesis
    using steplength_schedule[OF h, of 1] by (simp add: m)
qed

section \<open>The log record of updateA\<close>

lemma updateA_state_fields:
  "data_W (updateA_state d A Ein) = data_W d"
  "data_ens_mask (updateA_state d A Ein) = data_ens_mask d"
  "data_obs_mask (updateA_state d A Ein) = data_obs_mask d"
  "data_config (updateA_state d A Ein) = data_config d"
  "data_iteration_nr (updateA_state d A Ein) = c_int_wrap (data_iteration_nr d + 1)"
  by (simp_all add: updateA_state_def data_store_initialA_def data_augment_initialE_def
      data_store_initialE_def data_update_state_size_def data_inc_iteration_nr_def Let_def
      split: option.splits)

lemma updateA_state_E:
  assumes "data_ens_mask d = Some em" "data_obs_mask d = Some om"
  shows "\<exists>E. data_E (updateA_state d A Ein) = Some E"
  using assms
  by (simp add: updateA_state_def data_store_initialA_def data_augment_initialE_def
      data_store_initialE_def data_update_state_size_def data_inc_iteration_nr_def Let_def
      split: option.splits)

lemma updateA_state_A0:
  assumes "data_ens_mask d = Some em"
  shows "\<exists>A0. data_A0 (updateA_state d A Ein) = Some A0"
  using assms
  by (simp add: updateA_state_def data_store_initialA_def data_augment_initialE_def
      data_store_initialE_def data_update_state_size_def data_inc_iteration_nr_def Let_def
      split: option.splits)

lemma updateA_unfold:
  "updateA K logger module_data A Yin Rin dObs Ein Din =
     (case alloc_activeE (updateA_state module_data A Ein) of
        Inl e \<Rightarrow> Inl e
      | Inr E \<Rightarrow>
          (case ies_initX K
                  (if get_aaprojection (data_get_config module_data) then Some A else None)
                  Yin Rin E (matrix_inplace_add (matrix_inplace_sub Din Ein) E)
                  (matrix_alloc (columns Yin) (columns Yin))
                  (get_inversion (data_get_config module_data))
                  (get_truncation (data_get_config module_data))
                  (get_aaprojection (data_get_config module_data))
                  (updateA_state module_data A Ein)
                  (calculate_steplength (data_get_config module_data)
                     (fst (data_inc_iteration_nr module_data)))
                  (fst (data_inc_iteration_nr module_data)) True of
             Inl e \<Rightarrow> Inl e
           | Inr (X, ies_data, None) \<Rightarrow> Inl StateError
           | Inr (X, ies_data, Some costf) \<Rightarrow>
               (case alloc_activeA ies_data of
                  Inl e \<Rightarrow> Inl e
                | Inr A0 \<Rightarrow>
                    Inr (ies_data, matrix_matmul A A0 X,
                         logger_info logger ''IES  iter:{} cost function: {}''
                           [Arg_int (fst (data_inc_iteration_nr module_data)),
                            Arg_double costf]))))"
  unfolding updateA_def updateA_state_def Let_def matrix_alloc_copy_def
    data_inc_iteration_nr_def prod.case fst_conv snd_conv
  by (simp split: sum.splits prod.splits option.splits)

lemma linalg_store_active_W_result:
  "data_W ies_data = Some W \<Longrightarrow> data_ens_mask ies_data = Some em \<Longrightarrow>
   \<exists>W'. linalg_store_active_W ies_data W0 = Inr (ies_data\<lparr>data_W := Some W'\<rparr>)"
  by (simp add: linalg_store_active_W_def Let_def) blast

lemma matrix_alloc_data: "data (matrix_alloc r c) i j = 0"
  by (simp add: matrix_alloc_def)

lemma ies_costf_fold:
  "fold (\<lambda>i local_costf.
             local_costf + (matrix_column_column_dot_product W i W i +
                            matrix_column_column_dot_product D i D i))
          [0..<n] c =
     c + (\<Sum>i<n. (\<Sum>k<rows W. data W k i * data W k i) + (\<Sum>k<rows D. data D k i * data D k i))"
  by (induction n) (simp_all add: matrix_column_column_dot_product_def)

lemma ies_costf_sum:
  "ies_costf W D n =
     (\<Sum>i<n. (\<Sum>k<rows W. data W k i * data W k i) + (\<Sum>k<rows D. data D k i * data D k i))
     / real n"
  by (simp add: ies_costf_def ies_costf_fold)

lemma render_updateA_template:
  "render F ''IES  iter:{} cost function: {}'' [Arg_int k, Arg_double x] =
     ''IES  iter:'' @ fmt_int F k @ '' cost function: '' @ fmt_double F x"
  by (simp add: format_arg_def)

lemma updateA_log:
  assumes W: "data_W module_data = Some W" and em: "data_ens_mask module_data = Some ens_mask"
    and om: "data_obs_mask module_data = Some obs_mask"
  shows "\<exists>ies_data' A' E.
           alloc_activeE (updateA_state module_data A Ein) = Inr E
           \<and> rows E = bool_vector_count_equal obs_mask True
           \<and> columns E = bool_vector_count_equal ens_mask True
           \<and> updateA K logger module_data A Yin Rin dObs Ein Din =
               Inr (ies_data', A',
                    logger @
                    [(Info, ''IES  iter:{} cost function: {}'',
                      [Arg_int (c_int_wrap (data_iteration_nr module_data + 1)),
                       Arg_double
                         (ies_costf (alloc_active W ens_mask ens_mask)
                            (matrix_inplace_add (matrix_inplace_sub Din Ein) E)
                            (columns Yin))])])
           \<and> data_iteration_nr ies_data' = c_int_wrap (data_iteration_nr module_data + 1)"
proof -
  let ?d = "updateA_state module_data A Ein"
  let ?k = "c_int_wrap (data_iteration_nr module_data + 1)"
  obtain E0 where E0: "data_E ?d = Some E0" using updateA_state_E[OF em om] by blast
  obtain A0 where A0: "data_A0 ?d = Some A0" using updateA_state_A0[OF em] by blast
  have W': "data_W ?d = Some W" and em': "data_ens_mask ?d = Some ens_mask"
    and om': "data_obs_mask ?d = Some obs_mask"
    using assms by (simp_all add: updateA_state_fields)
  have k: "fst (data_inc_iteration_nr module_data) = ?k"
    by (simp add: data_inc_iteration_nr_def)
  let ?E = "alloc_active E0 obs_mask ens_mask"
  have e: "alloc_activeE ?d = Inr ?E"
    by (simp add: alloc_activeE_def E0 em' om')
  have w: "alloc_activeW ?d = Inr (alloc_active W ens_mask ens_mask)"
    by (simp add: alloc_activeW_def W' em')
  let ?A = "if get_aaprojection (data_get_config module_data) then Some A else None"
  let ?D = "matrix_inplace_add (matrix_inplace_sub Din Ein) ?E"
  let ?W1 = "initX_W0 K ?A Yin Rin ?E ?D (get_inversion (data_get_config module_data))
      (get_truncation (data_get_config module_data))
      (get_aaprojection (data_get_config module_data))
      (calculate_steplength (data_get_config module_data) ?k)
      (alloc_active W ens_mask ens_mask)"
  obtain Wn where s: "linalg_store_active_W ?d ?W1 = Inr (?d\<lparr>data_W := Some Wn\<rparr>)"
    using linalg_store_active_W_result[OF W' em'] by blast
  have a: "alloc_activeA (?d\<lparr>data_W := Some Wn\<rparr>) =
      Inr (alloc_active A0 (bool_vector_alloc (rows A0) True) ens_mask)"
    by (simp add: alloc_activeA_def A0 em' Let_def)
  have "updateA K logger module_data A Yin Rin dObs Ein Din =
      Inr (?d\<lparr>data_W := Some Wn\<rparr>,
           matrix_matmul A (alloc_active A0 (bool_vector_alloc (rows A0) True) ens_mask)
             (initX_X (matrix_alloc (columns Yin) (columns Yin)) ?W1 (columns Yin)),
           logger @
           [(Info, ''IES  iter:{} cost function: {}'',
             [Arg_int ?k,
              Arg_double (ies_costf (alloc_active W ens_mask ens_mask) ?D (columns Yin))])])"
    by (simp add: updateA_unfold e k ies_initX_unfold w s a logger_info_def)
  moreover have "data_iteration_nr (?d\<lparr>data_W := Some Wn\<rparr>) = ?k"
    by (simp add: updateA_state_fields)
  ultimately show ?thesis using e by (simp add: alloc_active_shape)
qed

text \<open>
  Claim C8, as amended. After every \<^verbatim>\<open>updateA\<close> call with a logfile configured, exactly
  one newline-terminated text record of the form
  \<^verbatim>\<open>"IES  iter:<k> cost function: <f>"\<close>, with two blanks between \<^verbatim>\<open>IES\<close> and \<^verbatim>\<open>iter\<close>, is
  written, where \<^verbatim>\<open>k\<close> is the iteration number and \<^verbatim>\<open>f\<close> the cost function value.

  The call is one on a state that \<^verbatim>\<open>init_update\<close> has prepared (\<^verbatim>\<open>W\<close> and the masks are
  present), with inputs of the shapes of its masks. Such a call returns; the record is
  appended to what the logger had received, and the text written for it is the template
  with \<^verbatim>\<open>k\<close> and \<^verbatim>\<open>f\<close> rendered, followed by a newline. \<^verbatim>\<open>k\<close> is the iteration number of
  the state after the call, the incremented counter; \<^verbatim>\<open>f\<close> is the cost function of the
  active \<^verbatim>\<open>W\<close> and of \<^verbatim>\<open>D - E_in + E\<close>, with \<^verbatim>\<open>E\<close> the active slice of the stored
  perturbations.
\<close>

theorem updateA_logs_one_record:
  assumes "data_W module_data = Some W" and "data_ens_mask module_data = Some ens_mask"
    and "data_obs_mask module_data = Some obs_mask"
    and "cfg_logfile (data_config module_data) = Some path"
    and "rows W = length ens_mask" and "columns W = length ens_mask"
    and "\<And>E0. data_E module_data = Some E0 \<Longrightarrow>
           rows E0 = length obs_mask \<and> columns E0 = length ens_mask"
    and "\<And>A0. data_A0 module_data = Some A0 \<Longrightarrow>
           rows A0 = rows A \<and> columns A0 = length ens_mask"
    and "columns A = bool_vector_count_equal ens_mask True"
    and "rows Yin = bool_vector_count_equal obs_mask True"
    and "columns Yin = bool_vector_count_equal ens_mask True"
    and "rows Ein = rows Yin" and "columns Ein = columns Yin"
    and "rows Din = rows Yin" and "columns Din = columns Yin"
  shows "\<exists>ies_data' A' E costf.
           updateA K logger module_data A Yin Rin dObs Ein Din =
             Inr (ies_data', A',
                  logger @
                  [(Info, ''IES  iter:{} cost function: {}'',
                    [Arg_int (data_iteration_nr ies_data'), Arg_double costf])])
           \<and> log_sink_text (cfg_logfile (data_config module_data)) F
                 (logger @
                  [(Info, ''IES  iter:{} cost function: {}'',
                    [Arg_int (data_iteration_nr ies_data'), Arg_double costf])]) =
               log_sink_text (cfg_logfile (data_config module_data)) F logger @
               ''IES  iter:'' @ fmt_int F (data_iteration_nr ies_data') @
               '' cost function: '' @ fmt_double F costf @ [CHR 0x0A]
           \<and> data_iteration_nr ies_data' = c_int_wrap (data_iteration_nr module_data + 1)
           \<and> alloc_activeE (updateA_state module_data A Ein) = Inr E
           \<and> rows E = rows Ein \<and> columns E = columns Ein
           \<and> costf = ies_costf (alloc_active W ens_mask ens_mask)
                       (matrix_inplace_add (matrix_inplace_sub Din Ein) E) (columns Yin)"
proof -
  let ?k = "c_int_wrap (data_iteration_nr module_data + 1)"
  obtain d' A' E where r:
    "alloc_activeE (updateA_state module_data A Ein) = Inr E"
    "rows E = bool_vector_count_equal obs_mask True"
    "columns E = bool_vector_count_equal ens_mask True"
    "updateA K logger module_data A Yin Rin dObs Ein Din =
       Inr (d', A',
            logger @
            [(Info, ''IES  iter:{} cost function: {}'',
              [Arg_int ?k,
               Arg_double
                 (ies_costf (alloc_active W ens_mask ens_mask)
                    (matrix_inplace_add (matrix_inplace_sub Din Ein) E) (columns Yin))])])"
    "data_iteration_nr d' = ?k"
    using updateA_log[OF assms(1,2,3)] by blast
  let ?c = "ies_costf (alloc_active W ens_mask ens_mask)
              (matrix_inplace_add (matrix_inplace_sub Din Ein) E) (columns Yin)"
  have t: "log_sink_text (cfg_logfile (data_config module_data)) F
             (logger @
              [(Info, ''IES  iter:{} cost function: {}'', [Arg_int ?k, Arg_double ?c])]) =
           log_sink_text (cfg_logfile (data_config module_data)) F logger @
           ''IES  iter:'' @ fmt_int F ?k @ '' cost function: '' @ fmt_double F ?c @ [CHR 0x0A]"
    unfolding log_sink_text_def assms(4) option.case map_append concat_append log_line_def
    by (simp add: format_arg_def)
  show ?thesis
    using r t
    by (intro exI[of _ d'] exI[of _ A'] exI[of _ E] exI[of _ ?c])
      (simp add: assms(10,11,12,13))
qed

lemma example_log_state_E:
  "\<exists>full. data_E (updateA_state example_log_data A example_Ein) =
     Some (scatter_active full example_Ein [True] [True] [True, False, True])"
  by (simp add: updateA_state_def data_store_initialA_def data_augment_initialE_def
      data_store_initialE_def data_update_state_size_def data_inc_iteration_nr_def Let_def
      example_log_data_def data_alloc_def bool_vector_count_equal_def) blast

lemma example_log_active_rank:
  "active_rank [True] 0 = 0" "active_rank [True, False, True] 0 = 0"
  "active_rank [True, False, True] 2 = 1"
  by (simp_all add: active_rank_def bool_vector_count_equal_def numeral_2_eq_2)

lemma example_log_E:
  assumes "alloc_activeE (updateA_state example_log_data A example_Ein) = Inr E"
  shows "data E 0 0 = 1 / 2" "data E 0 1 = - 1 / 2"
proof -
  obtain full where E0: "data_E (updateA_state example_log_data A example_Ein) =
     Some (scatter_active full example_Ein [True] [True] [True, False, True])"
    using example_log_state_E by blast
  let ?E0 = "scatter_active full example_Ein [True] [True] [True, False, True]"
  have om: "data_obs_mask (updateA_state example_log_data A example_Ein) = Some [True]"
    and em: "data_ens_mask (updateA_state example_log_data A example_Ein) =
               Some [True, False, True]"
    by (simp_all add: updateA_state_fields example_log_data_def data_alloc_def)
  have E: "E = alloc_active ?E0 [True] [True, False, True]"
    using assms unfolding alloc_activeE_def E0 om em by simp
  have "data (alloc_active ?E0 [True] [True, False, True])
          (active_rank [True] 0) (active_rank [True, False, True] 0) = data ?E0 0 0"
    by (rule alloc_active_entry) simp_all
  then show "data E 0 0 = 1 / 2"
    by (simp add: E example_log_active_rank scatter_active_def example_Ein_def)
  have "data (alloc_active ?E0 [True] [True, False, True])
          (active_rank [True] 0) (active_rank [True, False, True] 2) = data ?E0 0 2"
    by (rule alloc_active_entry) simp_all
  then show "data E 0 1 = - 1 / 2"
    by (simp add: E example_log_active_rank scatter_active_def example_Ein_def)
qed

lemma example_log_costf:
  assumes "data E 0 0 = 1 / 2" "data E 0 1 = - 1 / 2"
  shows "ies_costf (alloc_active (matrix_alloc 3 3) [True, False, True] [True, False, True])
           (matrix_inplace_add (matrix_inplace_sub example_Din example_Ein) E)
           (columns example_Yin) = 4"
proof -
  have W: "data (alloc_active (matrix_alloc 3 3) [True, False, True] [True, False, True]) k i = 0"
    for k i
    by (rule alloc_active_zero) (simp add: matrix_alloc_data)
  have D0: "data (matrix_inplace_add (matrix_inplace_sub example_Din example_Ein) E) 0 0 = 2"
    by (simp add: matrix_inplace_add_def matrix_inplace_sub_def example_Din_def example_Ein_def
        assms)
  have D1: "data (matrix_inplace_add (matrix_inplace_sub example_Din example_Ein) E) 0 (Suc 0) = 2"
    using assms(2)
    by (simp add: matrix_inplace_add_def matrix_inplace_sub_def example_Din_def example_Ein_def)
  have r: "rows (matrix_inplace_add (matrix_inplace_sub example_Din example_Ein) E) = Suc 0"
    by (simp add: matrix_inplace_add_def matrix_inplace_sub_def example_Din_def)
  have c: "columns example_Yin = Suc (Suc 0)" by (simp add: example_Yin_def)
  show ?thesis
    unfolding ies_costf_sum c r by (simp add: W D0 D1)
qed

lemma example_log_data_fields:
  "data_W example_log_data = Some (matrix_alloc 3 3)"
  "data_ens_mask example_log_data = Some [True, False, True]"
  "data_obs_mask example_log_data = Some [True]"
  "cfg_logfile (data_config example_log_data) = Some ''ies.log''"
  "data_iteration_nr example_log_data = 0"
  "data_E example_log_data = None"
  "data_A0 example_log_data = None"
  by (simp_all add: example_log_data_def data_alloc_def)

lemma show_nat_digits: "show_nat (Suc 0) = ''1''" "show_nat 4 = ''4''"
  by (simp_all add: show_nat.simps[of "Suc 0"] show_nat.simps[of 4])

lemma example_formatter_values:
  "fmt_int example_formatter 1 = ''1''" "fmt_double example_formatter 4 = ''4''"
  by (simp_all add: example_formatter_def show_int_def show_nat_digits)

lemma example_log_text:
  "log_sink_text (Some ''ies.log'') example_formatter
     [(Info, ''IES  iter:{} cost function: {}'', [Arg_int 1, Arg_double 4])] =
   ''IES  iter:1 cost function: 4'' @ [CHR 0x0A]"
  by (simp add: log_sink_text_def log_line_def format_arg_def example_formatter_values)

theorem updateA_logs_one_record_witness:
  "cfg_logfile (data_config example_log_data) = Some ''ies.log''
   \<and> data_iteration_nr example_log_data = 0
   \<and> (\<exists>ies_data' A'.
         updateA example_unit_kernel [] example_log_data (matrix_alloc 1 2) example_Yin
           example_R1 (matrix_alloc 1 1) example_Ein example_Din =
           Inr (ies_data', A',
                [(Info, ''IES  iter:{} cost function: {}'', [Arg_int 1, Arg_double 4])])
         \<and> data_iteration_nr ies_data' = 1)
   \<and> log_sink_text (Some ''ies.log'') example_formatter
         [(Info, ''IES  iter:{} cost function: {}'', [Arg_int 1, Arg_double 4])] =
       ''IES  iter:1 cost function: 4'' @ [CHR 0x0A]"
proof -
  have "\<exists>ies_data' A' E costf.
           updateA example_unit_kernel [] example_log_data (matrix_alloc 1 2) example_Yin
             example_R1 (matrix_alloc 1 1) example_Ein example_Din =
             Inr (ies_data', A',
                  [] @
                  [(Info, ''IES  iter:{} cost function: {}'',
                    [Arg_int (data_iteration_nr ies_data'), Arg_double costf])])
           \<and> log_sink_text (cfg_logfile (data_config example_log_data)) example_formatter
                 ([] @
                  [(Info, ''IES  iter:{} cost function: {}'',
                    [Arg_int (data_iteration_nr ies_data'), Arg_double costf])]) =
               log_sink_text (cfg_logfile (data_config example_log_data)) example_formatter [] @
               ''IES  iter:'' @ fmt_int example_formatter (data_iteration_nr ies_data') @
               '' cost function: '' @ fmt_double example_formatter costf @ [CHR 0x0A]
           \<and> data_iteration_nr ies_data' = c_int_wrap (data_iteration_nr example_log_data + 1)
           \<and> alloc_activeE (updateA_state example_log_data (matrix_alloc 1 2) example_Ein) = Inr E
           \<and> rows E = rows example_Ein \<and> columns E = columns example_Ein
           \<and> costf = ies_costf (alloc_active (matrix_alloc 3 3) [True, False, True]
                                   [True, False, True])
                       (matrix_inplace_add (matrix_inplace_sub example_Din example_Ein) E)
                       (columns example_Yin)"
    by (rule updateA_logs_one_record[where obs_mask = "[True]" and path = "''ies.log''"])
      (simp_all add: example_log_data_fields matrix_alloc_def bool_vector_count_equal_def
        example_Yin_def example_Ein_def example_Din_def)
  then obtain d' A' E costf where r:
    "updateA example_unit_kernel [] example_log_data (matrix_alloc 1 2) example_Yin
       example_R1 (matrix_alloc 1 1) example_Ein example_Din =
       Inr (d', A',
            [] @
            [(Info, ''IES  iter:{} cost function: {}'',
              [Arg_int (data_iteration_nr d'), Arg_double costf])])"
    "data_iteration_nr d' = c_int_wrap (data_iteration_nr example_log_data + 1)"
    "alloc_activeE (updateA_state example_log_data (matrix_alloc 1 2) example_Ein) = Inr E"
    "costf = ies_costf (alloc_active (matrix_alloc 3 3) [True, False, True] [True, False, True])
               (matrix_inplace_add (matrix_inplace_sub example_Din example_Ein) E)
               (columns example_Yin)"
    by blast
  have c: "costf = 4"
    unfolding r(4) by (rule example_log_costf) (rule example_log_E[OF r(3)])+
  have k: "data_iteration_nr d' = 1"
    unfolding r(2) by (simp add: example_log_data_fields c_int_wrap_def)
  show ?thesis
    using r(1)[unfolded c k] k by (simp add: example_log_data_fields example_log_text)
qed

lemma example_log_call:
  "\<exists>ies_data' A'.
     updateA example_unit_kernel [] example_log_data (matrix_alloc 1 2) example_Yin
       example_R1 (matrix_alloc 1 1) example_Ein example_Din =
       Inr (ies_data', A',
            [(Info, ''IES  iter:{} cost function: {}'', [Arg_int 1, Arg_double 4])])"
proof -
  obtain d' A' E where r:
    "alloc_activeE (updateA_state example_log_data (matrix_alloc 1 2) example_Ein) = Inr E"
    "updateA example_unit_kernel [] example_log_data (matrix_alloc 1 2) example_Yin
       example_R1 (matrix_alloc 1 1) example_Ein example_Din =
       Inr (d', A',
            [] @
            [(Info, ''IES  iter:{} cost function: {}'',
              [Arg_int (c_int_wrap (data_iteration_nr example_log_data + 1)),
               Arg_double
                 (ies_costf (alloc_active (matrix_alloc 3 3) [True, False, True]
                               [True, False, True])
                    (matrix_inplace_add (matrix_inplace_sub example_Din example_Ein) E)
                    (columns example_Yin))])])"
    using updateA_log[OF example_log_data_fields(1,2,3)] by blast
  have c: "ies_costf (alloc_active (matrix_alloc 3 3) [True, False, True] [True, False, True])
             (matrix_inplace_add (matrix_inplace_sub example_Din example_Ein) E)
             (columns example_Yin) = 4"
    by (rule example_log_costf) (rule example_log_E[OF r(1)])+
  show ?thesis
    using r(2) unfolding c by (simp add: example_log_data_fields c_int_wrap_def)
qed

text \<open>
  Claim C8 as the spec states it fails on a call with a logfile configured: the record
  that the call of the example writes, for iteration 1 and the cost function value 4, has
  two blanks between \<^verbatim>\<open>IES\<close> and \<^verbatim>\<open>iter\<close>; it is not the record
  \<^verbatim>\<open>"IES iter:1 cost function: 4"\<close> of the form the spec gives.
\<close>

theorem updateA_log_format_counterexample:
  "cfg_logfile (data_config example_log_data) = Some ''ies.log''
   \<and> (case updateA example_unit_kernel [] example_log_data (matrix_alloc 1 2) example_Yin
             example_R1 (matrix_alloc 1 1) example_Ein example_Din of
         Inl e \<Rightarrow> None
       | Inr r \<Rightarrow>
           Some (log_sink_text (cfg_logfile (data_config example_log_data)) example_formatter
                   (snd (snd r)))) =
       Some (''IES  iter:1 cost function: 4'' @ [CHR 0x0A])
   \<and> ''IES  iter:1 cost function: 4'' @ [CHR 0x0A] \<noteq>
       ''IES iter:'' @ fmt_int example_formatter 1 @ '' cost function: '' @
       fmt_double example_formatter 4 @ [CHR 0x0A]"
proof -
  obtain d' A' where r:
    "updateA example_unit_kernel [] example_log_data (matrix_alloc 1 2) example_Yin
       example_R1 (matrix_alloc 1 1) example_Ein example_Din =
       Inr (d', A',
            [(Info, ''IES  iter:{} cost function: {}'', [Arg_int 1, Arg_double 4])])"
    using example_log_call by blast
  show ?thesis
    unfolding r example_log_data_fields(4)
    by (simp add: example_log_text example_formatter_values)
qed

section \<open>States reached by init_update\<close>

text \<open>
  The hypotheses on the state that the theorems above make hold in every state
  \<^verbatim>\<open>init_update\<close> returns: it holds both masks and a \<^verbatim>\<open>W\<close> of the mask's size, provided the
  \<^verbatim>\<open>W\<close> it was given, if any, had the size of the mask it was given.
\<close>

lemma init_update_prepares:
  assumes "init_update module_data ens_mask obs_mask S R dObs E D = Inr ies_data'"
    and "\<And>W old. data_W module_data = Some W \<Longrightarrow> data_ens_mask module_data = Some old \<Longrightarrow>
           rows W = length old \<and> columns W = length old"
  shows "\<exists>W. data_W ies_data' = Some W \<and> rows W = length ens_mask \<and> columns W = length ens_mask
           \<and> data_ens_mask ies_data' = Some ens_mask
           \<and> data_obs_mask ies_data' = Some obs_mask"
proof (cases "data_ens_mask module_data")
  case None
  then show ?thesis
    using assms(1)
    by (auto simp: init_update_def data_update_ens_mask_def data_allocateW_def Let_def
        store_initial_obs_mask_def update_obs_mask_def matrix_alloc_def
        split: option.splits)
next
  case (Some old)
  show ?thesis
  proof (cases "data_W module_data")
    case None
    then show ?thesis
      using assms(1) Some
      by (auto simp: init_update_def data_update_ens_mask_def data_allocateW_def Let_def
          store_initial_obs_mask_def update_obs_mask_def matrix_alloc_def
          split: option.splits if_splits)
  next
    case (Some W)
    then show ?thesis
      using assms(1) \<open>data_ens_mask module_data = Some old\<close> assms(2)[OF Some]
      by (auto simp: init_update_def data_update_ens_mask_def data_allocateW_def Let_def
          store_initial_obs_mask_def update_obs_mask_def
          split: option.splits if_splits)
  qed
qed

lemma init_update_example:
  "init_update (data_alloc example_config) [True, True] [True] S R dObs E D =
     Inr example_update_data"
  by (simp add: init_update_def data_update_ens_mask_def data_allocateW_def Let_def
      store_initial_obs_mask_def update_obs_mask_def data_alloc_def example_update_data_def
      numeral_2_eq_2)

lemma init_update_example_log:
  "init_update (data_alloc (example_config\<lparr>cfg_logfile := Some ''ies.log''\<rparr>))
     [True, False, True] [True] S R dObs E D = Inr example_log_data"
  by (simp add: init_update_def data_update_ens_mask_def data_allocateW_def Let_def
      store_initial_obs_mask_def update_obs_mask_def data_alloc_def example_log_data_def
      numeral_3_eq_3)

end
